theory Spec2Isabelle
  imports Main
begin

section \<open>NFT transfer service: cells, operation encoders and orchestration\<close>

text \<open>
  A shallow embedding of \<^verbatim>\<open>packages/core/src/service/transfer/nftService.ts\<close>.
  Bigints and \<^verbatim>\<open>BigNumber\<close> values that carry coin amounts are integers and are modelled
  as \<^typ>\<open>int\<close>. The fee delta \<^verbatim>\<open>fee.event.extra\<close> is a JavaScript number: the remote API
  reports an integer, so it is an integer-valued double, kept as the integer it denotes,
  and its passage into \<^verbatim>\<open>BigNumber\<close> and back out through \<^verbatim>\<open>BigInt\<close> is modelled below.
  Every \<^verbatim>\<open>throw\<close> is a value \<open>Inl e\<close> of a sum type.
\<close>

subsection \<open>Errors\<close>

text \<open>
  The failure kinds of the service. The source throws plain \<^verbatim>\<open>Error\<close> objects; the
  constructors carry the names the specification gives to them. \<open>SyntaxError\<close> is the
  error of \<^verbatim>\<open>BigInt(string)\<close> on a string that is not an integer literal.
\<close>

datatype error =
    FormatError
  | RangeError
  | ServiceUnavailable
  | EmptyBalance
  | InsufficientBalance
  | InvalidAmount
  | WrongPassword
  | RemoteRejection
  | SyntaxError

subsection \<open>Cell builder\<close>

text \<open>
  The cell builder is the \<^verbatim>\<open>ton-core\<close> library, which is not part of the sources. A cell
  is kept as the ordered list of the fields stored into its bit buffer, each with its kind,
  width and value, together with the list of its child cells. The bit patterns of addresses
  and coin amounts belong to the library and are not unfolded here.
\<close>

datatype address = Address (workChain: int) (hash: nat)

datatype field =
    UintField nat int
  | BitField bool
  | AddressField address
  | CoinsField int

datatype cell = Cell (fields: "field list") (refs: "cell list")

record builder =
  b_fields :: "field list"
  b_refs :: "cell list"

text \<open>Modelled from the spec: \<^verbatim>\<open>beginCell()\<close> of the Cell Builder (section 4.1), an empty
  builder.\<close>

definition beginCell :: builder where
  "beginCell = \<lparr>b_fields = [], b_refs = []\<rparr>"

text \<open>Modelled from the spec: \<^verbatim>\<open>storeUint(value, bitWidth)\<close> of the Cell Builder
  (section 4.1): it appends the value as an unsigned field of the given width and fails
  with a RangeError when the value is negative or does not fit in the width.\<close>

definition storeUint :: "int \<Rightarrow> nat \<Rightarrow> builder \<Rightarrow> error + builder" where
  "storeUint v w b =
     (if v < 0 \<or> 2 ^ w \<le> v then Inl RangeError
      else Inr (b\<lparr>b_fields := b_fields b @ [UintField w v]\<rparr>))"

text \<open>Modelled from the spec: \<^verbatim>\<open>storeBit(bool)\<close> of the Cell Builder (section 4.1).\<close>

definition storeBit :: "bool \<Rightarrow> builder \<Rightarrow> error + builder" where
  "storeBit v b = Inr (b\<lparr>b_fields := b_fields b @ [BitField v]\<rparr>)"

text \<open>Modelled from the spec: \<^verbatim>\<open>storeAddress(Address)\<close> of the Cell Builder
  (section 4.1).\<close>

definition storeAddress :: "address \<Rightarrow> builder \<Rightarrow> error + builder" where
  "storeAddress a b = Inr (b\<lparr>b_fields := b_fields b @ [AddressField a]\<rparr>)"

text \<open>Modelled from the spec: \<^verbatim>\<open>storeCoins(amount)\<close> of the Cell Builder (section 4.1).
  A coin amount is a non-negative integer (section 3) of at most fifteen bytes, the
  ledger's variable-length coin format; any other value is a RangeError.\<close>

definition storeCoins :: "int \<Rightarrow> builder \<Rightarrow> error + builder" where
  "storeCoins v b =
     (if v < 0 \<or> 2 ^ 120 \<le> v then Inl RangeError
      else Inr (b\<lparr>b_fields := b_fields b @ [CoinsField v]\<rparr>))"

text \<open>Modelled from the spec: \<^verbatim>\<open>storeRef(Cell)\<close> of the Cell Builder (section 4.1): it
  attaches a child cell and fails with a RangeError if more than one ref is attached.\<close>

definition storeRef :: "cell \<Rightarrow> builder \<Rightarrow> error + builder" where
  "storeRef c b =
     (if b_refs b \<noteq> [] then Inl RangeError
      else Inr (b\<lparr>b_refs := b_refs b @ [c]\<rparr>))"

text \<open>Modelled from the spec: \<^verbatim>\<open>storeMaybeRef(Cell|null)\<close> of the Cell Builder
  (section 4.1): a single presence bit, 1 followed by the ref if the cell is non-null, 0
  alone otherwise.\<close>

definition storeMaybeRef :: "cell option \<Rightarrow> builder \<Rightarrow> error + builder" where
  "storeMaybeRef c b =
     (case c of
        Some c' \<Rightarrow>
          (case storeBit True b of Inl e \<Rightarrow> Inl e | Inr b' \<Rightarrow> storeRef c' b')
      | None \<Rightarrow> storeBit False b)"

text \<open>Modelled from the spec: \<^verbatim>\<open>endCell()\<close> of the Cell Builder (section 4.1) finalizes
  the builder into an immutable cell.\<close>

definition endCell :: "builder \<Rightarrow> cell" where
  "endCell b = Cell (b_fields b) (b_refs b)"

text \<open>
  A fluent chain \<^verbatim>\<open>beginCell().op1(..).op2(..)\<close> runs its stores from left to right and
  stops at the first one that throws.
\<close>

fun chain :: "(builder \<Rightarrow> error + builder) list \<Rightarrow> builder \<Rightarrow> error + builder" where
  "chain [] b = Inr b"
| "chain (op # ops) b = (case op b of Inl e \<Rightarrow> Inl e | Inr b' \<Rightarrow> chain ops b')"

subsection \<open>Operation encoders\<close>

text \<open>The JavaScript expression \<^verbatim>\<open>queryId || 0\<close> on an optional number: an absent and a
  zero query id both give 0.\<close>

definition orZero :: "int option \<Rightarrow> int" where
  "orZero q = (case q of None \<Rightarrow> 0 | Some v \<Rightarrow> (if v = 0 then 0 else v))"

record queryParams =
  queryId :: "int option"

record transferParams = queryParams +
  newOwnerAddress :: address
  responseAddress :: address
  forwardAmount :: int
  forwardPayload :: "cell option"

record linkParams = queryParams +
  linkToAddress :: string

definition nftTransferBody :: "transferParams \<Rightarrow> error + cell" where
  "nftTransferBody params =
     map_sum id endCell
       (chain
          [storeUint 0x5fcc3d14 32,
           storeUint (orZero (queryId params)) 64,
           storeAddress (newOwnerAddress params),
           storeAddress (responseAddress params),
           storeBit False,
           storeCoins (forwardAmount params),
           storeMaybeRef (forwardPayload params)]
          beginCell)"

text \<open>\<^verbatim>\<open>nftRenewBody\<close> takes an optional parameter object with an optional query id
  (\<^verbatim>\<open>params?.queryId || 0\<close>).\<close>

definition nftRenewBody :: "queryParams option \<Rightarrow> error + cell" where
  "nftRenewBody params =
     map_sum id endCell
       (chain
          [storeUint 0x4eb1f0f9 32,
           storeUint (orZero (case params of None \<Rightarrow> None | Some p \<Rightarrow> queryId p)) 64,
           storeUint 0 256]
          beginCell)"

text \<open>\<^verbatim>\<open>Address.parse\<close> belongs to the library and its format is outside the sources; it
  is a parameter of the model: \<open>None\<close> stands for the thrown format error.\<close>

type_synonym addressParser = "string \<Rightarrow> address option"

definition addressToDNSAddressFormat :: "addressParser \<Rightarrow> string \<Rightarrow> error + builder" where
  "addressToDNSAddressFormat parse a =
     chain
       [storeUint 0x9fd3 16,
        (\<lambda>b. case parse a of None \<Rightarrow> Inl FormatError | Some adr \<Rightarrow> storeAddress adr b),
        storeUint 0 8]
       beginCell"

definition DNS_CATEGORY_WALLET :: int where
  "DNS_CATEGORY_WALLET = 0xe8d44050873dba865aa7c170ab4cce64d90839a34dcfd6cf71d14e0205443b1b"

text \<open>The test \<^verbatim>\<open>if (params.linkToAddress)\<close> on a string holds exactly for a non-empty
  string. \<^verbatim>\<open>storeRef\<close> is given the builder of the sub-cell, which it finalizes.\<close>

definition nftLinkBody :: "addressParser \<Rightarrow> linkParams \<Rightarrow> error + cell" where
  "nftLinkBody parse params =
     (case chain
             [storeUint 0x4eb1f0f9 32,
              storeUint (orZero (queryId params)) 64,
              storeUint DNS_CATEGORY_WALLET 256]
             beginCell of
        Inl e \<Rightarrow> Inl e
      | Inr cell0 \<Rightarrow>
          (if linkToAddress params \<noteq> [] then
             (case addressToDNSAddressFormat parse (linkToAddress params) of
                Inl e \<Rightarrow> Inl e
              | Inr sub \<Rightarrow> map_sum id endCell (storeRef (endCell sub) cell0))
           else Inr (endCell cell0)))"

text \<open>The transfer encoder as the specification words it (section 4.2): an unset query id
  defaults to the current time. It is compared with \<open>nftTransferBody\<close> below.\<close>

definition nftTransferBody_spec :: "int \<Rightarrow> transferParams \<Rightarrow> error + cell" where
  "nftTransferBody_spec now params =
     map_sum id endCell
       (chain
          [storeUint 0x5fcc3d14 32,
           storeUint (case queryId params of None \<Rightarrow> now | Some v \<Rightarrow> v) 64,
           storeAddress (newOwnerAddress params),
           storeAddress (responseAddress params),
           storeBit False,
           storeCoins (forwardAmount params),
           storeMaybeRef (forwardPayload params)]
          beginCell)"

text \<open>Reading the 64-bit query id back from an encoded operation: the field that follows
  the 32-bit operation tag.\<close>

fun queryIdOf :: "cell \<Rightarrow> int option" where
  "queryIdOf (Cell (UintField w t # UintField w' q # fs) rs) =
     (if w = 32 \<and> w' = 64 then Some q else None)"
| "queryIdOf c = None"

subsection \<open>Data of the orchestrator\<close>

text \<open>
  The imported types, with the fields this service reads; nested paths are flattened:
  \<open>rawAddress\<close> is \<^verbatim>\<open>walletState.active.rawAddress\<close>, \<open>toAccountRaw\<close> is
  \<^verbatim>\<open>recipient.toAccount.address.raw\<close>, \<open>extra\<close> is \<^verbatim>\<open>fee.event.extra\<close> and \<open>balance\<close>
  is \<^verbatim>\<open>wallet.balance\<close>.
\<close>

record walletState =
  publicKey :: string
  rawAddress :: string

record tonRecipientData =
  toAccountRaw :: string
  comment :: string

record nftItemRepr =
  address :: string

record messageConsequences =
  extra :: int

record accountRepr =
  balance :: int

record keyPair =
  kp_publicKey :: "nat list"
  secretKey :: "nat list"

text \<open>The assembled transfer message: what \<^verbatim>\<open>createTransferMessage\<close> was given. Its
  base64 serialization is determined by these parts and is not modelled further.\<close>

record message =
  m_seqno :: int
  m_state :: walletState
  m_secretKey :: "nat list"
  m_to :: string
  m_value :: int
  m_body :: cell

record estimateRenewOptions =
  walletState :: walletState
  nftAddress :: string
  amount :: int

record estimateLinkOptions = estimateRenewOptions +
  el_linkToAddress :: string

record sendRenewOptions = estimateRenewOptions +
  fee :: messageConsequences
  password :: string

record sendLinkOptions = sendRenewOptions +
  sl_linkToAddress :: string

subsection \<open>External collaborators and effects\<close>

text \<open>
  The answers of the external collaborators (section 6) during one call, and the two
  library functions whose format is outside the sources: the secret store, the key
  derivation, the account query service, the clock \<^verbatim>\<open>Date.now()\<close>, \<^verbatim>\<open>Address.parse\<close>,
  \<^verbatim>\<open>comment\<close>, the emulation endpoint and the broadcast endpoint.
\<close>

record env =
  serviceTime :: bool
  secretStore :: "string \<Rightarrow> string \<Rightarrow> string list option"
  deriveKeyPair :: "string list \<Rightarrow> keyPair"
  accountState :: "string \<Rightarrow> accountRepr \<times> int"
  dateNow :: int
  parseAddress :: addressParser
  commentCell :: "string \<Rightarrow> cell"
  emulation :: "message \<Rightarrow> messageConsequences option"
  broadcast :: "message \<Rightarrow> bool"

text \<open>What a call does, in order: each check, remote call, encoding and assembly leaves an
  event, also when it fails.\<close>

datatype event =
    ServiceTimeCheck
  | SecretRetrieval string
  | KeyDerivation
  | AccountStateFetch string
  | PositiveBalanceCheck int
  | SufficiencyCheck int int
  | BodyEncoding
  | MessageAssembly message
  | Emulation message
  | Broadcast message

text \<open>An asynchronous computation: the events it left and its outcome, an error or a
  value. The first error aborts what follows, as a thrown exception does.\<close>

type_synonym 'a io = "event list \<times> (error + 'a)"

definition ok :: "'a \<Rightarrow> 'a io" where
  "ok x = ([], Inr x)"

definition throw :: "error \<Rightarrow> 'a io" where
  "throw e = ([], Inl e)"

definition step :: "event \<Rightarrow> error + 'a \<Rightarrow> 'a io" where
  "step ev r = ([ev], r)"

definition lift :: "error + 'a \<Rightarrow> 'a io" where
  "lift r = ([], r)"

definition andThen :: "'a io \<Rightarrow> ('a \<Rightarrow> 'b io) \<Rightarrow> 'b io" where
  "andThen m f =
     (case m of
        (t, Inl e) \<Rightarrow> (t, Inl e)
      | (t, Inr x) \<Rightarrow> (case f x of (t', r) \<Rightarrow> (t @ t', r)))"

subsection \<open>Preflight validator and message assembler\<close>

text \<open>Modelled from the spec: \<^verbatim>\<open>checkServiceTimeOrDie\<close> of \<^verbatim>\<open>./common\<close>, the service-time
  check (section 4.4): it queries the remote service and fails with ServiceUnavailable if
  the service cannot attest the current time.\<close>

definition checkServiceTimeOrDie :: "env \<Rightarrow> unit io" where
  "checkServiceTimeOrDie e =
     step ServiceTimeCheck (if serviceTime e then Inr () else Inl ServiceUnavailable)"

text \<open>Modelled from the spec: \<^verbatim>\<open>checkWalletPositiveBalanceOrDie\<close> of \<^verbatim>\<open>./common\<close>, the
  positive-balance check (section 4.4): it fails with EmptyBalance if the account's
  spendable balance is \<open>\<le> 0\<close>.\<close>

definition checkWalletPositiveBalanceOrDie :: "accountRepr \<Rightarrow> unit io" where
  "checkWalletPositiveBalanceOrDie wallet =
     step (PositiveBalanceCheck (balance wallet))
       (if balance wallet \<le> 0 then Inl EmptyBalance else Inr ())"

text \<open>Modelled from the spec: \<^verbatim>\<open>checkWalletBalanceOrDie\<close> of \<^verbatim>\<open>./common\<close>, the
  balance-sufficiency check (section 4.4): it fails with InsufficientBalance if the
  computed total exceeds the spendable balance.\<close>

definition checkWalletBalanceOrDie :: "int \<Rightarrow> accountRepr \<Rightarrow> unit io" where
  "checkWalletBalanceOrDie total' wallet =
     step (SufficiencyCheck total' (balance wallet))
       (if balance wallet < total' then Inl InsufficientBalance else Inr ())"

text \<open>Modelled from the spec: \<^verbatim>\<open>getWalletBalance\<close> of \<^verbatim>\<open>./common\<close>, the account query
  \<^verbatim>\<open>getAccountState(address) -> {balance, seqno}\<close> (section 6) for the active account.\<close>

definition getWalletBalance :: "env \<Rightarrow> walletState \<Rightarrow> (accountRepr \<times> int) io" where
  "getWalletBalance e ws =
     step (AccountStateFetch (rawAddress ws)) (Inr (accountState e (rawAddress ws)))"

text \<open>Modelled from the spec: \<^verbatim>\<open>getWalletMnemonic\<close> of \<^verbatim>\<open>../mnemonicService\<close>, the secret
  store \<^verbatim>\<open>getSecret(accountPublicKey, passphrase) -> mnemonicWords\<close> (section 6), which
  fails with WrongPassword.\<close>

definition getWalletMnemonic :: "env \<Rightarrow> string \<Rightarrow> string \<Rightarrow> string list io" where
  "getWalletMnemonic e pk pw =
     step (SecretRetrieval pk)
       (case secretStore e pk pw of None \<Rightarrow> Inl WrongPassword | Some mnemonic \<Rightarrow> Inr mnemonic)"

text \<open>Modelled from the spec: \<^verbatim>\<open>mnemonicToPrivateKey\<close> of the \<^verbatim>\<open>ton-crypto\<close> library, the
  key derivation \<^verbatim>\<open>deriveKeyPair(mnemonicWords) -> {publicKey, secretKey}\<close> (section 6).\<close>

definition mnemonicToPrivateKey :: "env \<Rightarrow> string list \<Rightarrow> keyPair io" where
  "mnemonicToPrivateKey e mnemonic = step KeyDerivation (Inr (deriveKeyPair e mnemonic))"

text \<open>Modelled from the spec: \<^verbatim>\<open>createTransferMessage\<close> of \<^verbatim>\<open>./common\<close>, the transfer
  message assembler (section 4.3): given \<^verbatim>\<open>{seqno, walletState, secretKey}\<close> and
  \<^verbatim>\<open>{destination, value, body}\<close> it produces the signed message.\<close>

definition createTransferMessage ::
  "int \<Rightarrow> walletState \<Rightarrow> nat list \<Rightarrow> string \<Rightarrow> int \<Rightarrow> cell \<Rightarrow> message io" where
  "createTransferMessage seqno state key to val body =
     (let m = \<lparr>m_seqno = seqno, m_state = state, m_secretKey = key,
                m_to = to, m_value = val, m_body = body\<rparr>
      in step (MessageAssembly m) (Inr m))"

text \<open>Modelled from the spec: \<^verbatim>\<open>emulateMessageToWallet\<close> of \<^verbatim>\<open>../../tonApiV2\<close>, the
  estimation endpoint (section 6): it accepts the serialized message and returns the
  consequence report with its \<^verbatim>\<open>extra\<close> delta, or fails with RemoteRejection
  (section 7).\<close>

definition emulateMessageToWallet :: "env \<Rightarrow> message \<Rightarrow> messageConsequences io" where
  "emulateMessageToWallet e m =
     step (Emulation m)
       (case emulation e m of None \<Rightarrow> Inl RemoteRejection | Some r \<Rightarrow> Inr r)"

text \<open>Modelled from the spec: \<^verbatim>\<open>sendBlockchainMessage\<close> of \<^verbatim>\<open>../../tonApiV2\<close> and
  \<^verbatim>\<open>sendBoc\<close> of \<^verbatim>\<open>../../tonApiV1\<close>, the broadcast endpoint (section 6): it accepts the
  serialized signed message and returns success or a rejection.\<close>

definition sendBlockchainMessage :: "env \<Rightarrow> message \<Rightarrow> unit io" where
  "sendBlockchainMessage e m =
     step (Broadcast m) (if broadcast e m then Inr () else Inl RemoteRejection)"

definition sendBoc :: "env \<Rightarrow> message \<Rightarrow> unit io" where
  "sendBoc e m =
     step (Broadcast m) (if broadcast e m then Inr () else Inl RemoteRejection)"

text \<open>\<^verbatim>\<open>Buffer.alloc(64)\<close>: sixty-four zero bytes.\<close>

definition Buffer_alloc :: "nat \<Rightarrow> nat list" where
  "Buffer_alloc n = replicate n 0"

text \<open>Modelled from the spec: \<^verbatim>\<open>getKeyPairAndSeqno\<close> of \<^verbatim>\<open>./common\<close>, the head of the send
  flow (section 4.5): run the service-time check, retrieve the real signing key material
  with the passphrase, fetch balance and seqno, run the strict sufficiency check against
  the total, the transfer amount plus fee (section 4.4).\<close>

definition getKeyPairAndSeqno :: "env \<Rightarrow> 'a sendRenewOptions_scheme \<Rightarrow> (int \<times> keyPair) io" where
  "getKeyPairAndSeqno e options =
     andThen (checkServiceTimeOrDie e) (\<lambda>_.
     andThen (getWalletMnemonic e (publicKey (walletState options)) (password options))
       (\<lambda>mnemonic.
     andThen (mnemonicToPrivateKey e mnemonic) (\<lambda>keyPair.
     andThen (getWalletBalance e (walletState options)) (\<lambda>(wallet, seqno).
     andThen (checkWalletBalanceOrDie (amount options + extra (fee options)) wallet) (\<lambda>_.
     ok (seqno, keyPair))))))"

subsection \<open>JavaScript numbers, \<^verbatim>\<open>BigNumber\<close> and \<^verbatim>\<open>BigInt\<close>\<close>

text \<open>
  \<^verbatim>\<open>new BigNumber(n)\<close> and \<^verbatim>\<open>x.plus(n)\<close> on a JavaScript number \<open>n\<close> read the decimal
  string of \<open>n\<close>, which is the shortest decimal that converts back to the same double
  (\<^verbatim>\<open>Number::toString\<close>): all the digits of an integer below \<open>2\<^sup>5\<^sup>3\<close>, and at most
  seventeen significant digits, padded with zeros, above. The functions below compute that
  decimal for a non-negative integer-valued double.
\<close>

text \<open>The number of binary digits of a natural number.\<close>

fun bitLength :: "nat \<Rightarrow> nat" where
  "bitLength n = (if n = 0 then 0 else Suc (bitLength (n div 2)))"

declare bitLength.simps [simp del]

text \<open>The double nearest to a natural number: 53 significant bits, ties to the even
  significand.\<close>

definition toDouble :: "nat \<Rightarrow> nat" where
  "toDouble c =
     (if c < 2 ^ 53 then c
      else
        (let e = bitLength c - 53; q = c div 2 ^ e; r = c mod 2 ^ e; h = 2 ^ (e - 1)
         in (if h < r \<or> (r = h \<and> odd q) then q + 1 else q) * 2 ^ e))"

fun decimalDigits :: "nat \<Rightarrow> nat" where
  "decimalDigits n = (if n < 10 then 1 else Suc (decimalDigits (n div 10)))"

declare decimalDigits.simps [simp del]

text \<open>\<open>shortestFrom x j\<close> looks for a multiple of \<open>10\<^sup>j\<close> that converts to the double
  \<open>x\<close>, the nearer of the two neighbours of \<open>x\<close> if both do (the even one on a tie), and
  goes on with \<open>10\<^sup>j\<^sup>-\<^sup>1\<close> if none does: the fewest significant digits win.\<close>

fun shortestFrom :: "nat \<Rightarrow> nat \<Rightarrow> nat" where
  "shortestFrom x j =
     (if j = 0 then x
      else
        (let u = 10 ^ j; lo = (x div u) * u; hi = lo + u
         in if toDouble lo = x \<and> toDouble hi = x then
              (if x - lo < hi - x then lo
               else if hi - x < x - lo then hi
               else if even (x div u) then lo else hi)
            else if toDouble lo = x then lo
            else if toDouble hi = x then hi
            else shortestFrom x (j - 1)))"

declare shortestFrom.simps [simp del]

text \<open>The value of the decimal string \<^verbatim>\<open>String(x)\<close> of a non-negative integer-valued
  double \<open>x\<close>.\<close>

definition Number_toString :: "nat \<Rightarrow> nat" where
  "Number_toString x = shortestFrom x (decimalDigits x - 1)"

text \<open>\<^verbatim>\<open>new BigNumber(v)\<close> for a JavaScript number \<open>v\<close>: the sign and the decimal string of
  the magnitude.\<close>

definition BigNumber_of_number :: "int \<Rightarrow> int" where
  "BigNumber_of_number v =
     (if v < 0 then - int (Number_toString (nat (- v))) else int (Number_toString (nat v)))"

text \<open>\<^verbatim>\<open>BigInt(a.toString())\<close> for a \<^verbatim>\<open>BigNumber\<close> integer \<open>a\<close>: \<^verbatim>\<open>toString\<close> writes plain
  digits below \<open>10\<^sup>2\<^sup>1\<close> and exponential notation from there on, which \<^verbatim>\<open>BigInt\<close>
  rejects with a SyntaxError.\<close>

definition BigInt_of_BigNumber :: "int \<Rightarrow> error + int" where
  "BigInt_of_BigNumber a = (if 10 ^ 21 \<le> \<bar>a\<bar> then Inl SyntaxError else Inr a)"

subsection \<open>Transfer orchestrator\<close>

text \<open>\<^verbatim>\<open>toNano('1')\<close> and \<^verbatim>\<open>toNano('0.05')\<close>: one coin is \<open>10\<^sup>9\<close> of the smallest unit.\<close>

definition initNftTransferAmount :: int where
  "initNftTransferAmount = 1000000000"

definition toNano_0_05 :: int where
  "toNano_0_05 = 50000000"

definition nftTransferForwardAmount :: int where
  "nftTransferForwardAmount = 1"

text \<open>\<^verbatim>\<open>createNftTransfer\<close>: the forward payload defaults to null and the secret key, when
  omitted (\<open>None\<close>), to \<^verbatim>\<open>Buffer.alloc(64)\<close>. The query id handed to the encoder is
  \<^verbatim>\<open>Date.now()\<close>.\<close>

definition createNftTransfer ::
  "env \<Rightarrow> int \<Rightarrow> walletState \<Rightarrow> string \<Rightarrow> string \<Rightarrow> int \<Rightarrow> cell option \<Rightarrow> nat list option
     \<Rightarrow> message io" where
  "createNftTransfer e seqno ws recipientAddress nftAddress' nftTransferAmount payload key =
     andThen
       (step BodyEncoding
          (case parseAddress e recipientAddress of
             None \<Rightarrow> Inl FormatError
           | Some newOwner \<Rightarrow>
               (case parseAddress e (rawAddress ws) of
                  None \<Rightarrow> Inl FormatError
                | Some response \<Rightarrow>
                    nftTransferBody
                      \<lparr>queryId = Some (dateNow e),
                       newOwnerAddress = newOwner,
                       responseAddress = response,
                       forwardAmount = nftTransferForwardAmount,
                       forwardPayload = payload\<rparr>)))
       (\<lambda>body.
          createTransferMessage seqno ws
            (case key of None \<Rightarrow> Buffer_alloc 64 | Some k \<Rightarrow> k)
            nftAddress' nftTransferAmount body)"

definition estimateNftTransfer ::
  "env \<Rightarrow> walletState \<Rightarrow> tonRecipientData \<Rightarrow> nftItemRepr \<Rightarrow> messageConsequences io" where
  "estimateNftTransfer api ws recipient nftItem =
     andThen (checkServiceTimeOrDie api) (\<lambda>_.
     andThen (getWalletBalance api ws) (\<lambda>(wallet, seqno).
     andThen (checkWalletPositiveBalanceOrDie wallet) (\<lambda>_.
     andThen
       (createNftTransfer api seqno ws (toAccountRaw recipient) (address nftItem)
          initNftTransferAmount
          (if comment recipient \<noteq> [] then Some (commentCell api (comment recipient)) else None)
          None) (\<lambda>cell.
     emulateMessageToWallet api cell))))"

text \<open>
  \<^verbatim>\<open>sendNftTransfer\<close>. The minimum \<^verbatim>\<open>min\<close> is the decimal string of \<^verbatim>\<open>toNano('0.05')\<close>, which
  \<^verbatim>\<open>BigNumber\<close> reads exactly; the fee delta enters as a JavaScript number, once in
  \<^verbatim>\<open>new BigNumber(fee.event.extra)\<close> and once, negated, in \<^verbatim>\<open>plus(fee.event.extra * -1)\<close>.
  The amount leaves \<^verbatim>\<open>BigNumber\<close> through \<^verbatim>\<open>BigInt(nftTransferAmount.toString())\<close>, an
  argument of the call of \<^verbatim>\<open>createNftTransfer\<close>. The thrown
  \<^verbatim>\<open>Unexpected nft transfer amount\<close> error is InvalidAmount.
\<close>

definition sendNftTransfer ::
  "env \<Rightarrow> walletState \<Rightarrow> tonRecipientData \<Rightarrow> nftItemRepr \<Rightarrow> messageConsequences \<Rightarrow> string
     \<Rightarrow> unit io" where
  "sendNftTransfer api ws recipient nftItem fee' password' =
     andThen (checkServiceTimeOrDie api) (\<lambda>_.
     andThen (getWalletMnemonic api (publicKey ws) password') (\<lambda>mnemonic.
     andThen (mnemonicToPrivateKey api mnemonic) (\<lambda>kp.
       (let min' = toNano_0_05;
            nftTransferAmount0 = BigNumber_of_number (extra fee') * (- 1) + min';
            nftTransferAmount =
              (if nftTransferAmount0 < min' then min' else nftTransferAmount0);
            total' = nftTransferAmount + BigNumber_of_number (extra fee' * (- 1))
        in if nftTransferAmount \<le> 0 then throw InvalidAmount
           else
             andThen (getWalletBalance api ws) (\<lambda>(wallet, seqno).
             andThen (checkWalletBalanceOrDie total' wallet) (\<lambda>_.
             andThen (lift (BigInt_of_BigNumber nftTransferAmount)) (\<lambda>amountBig.
             andThen
               (createNftTransfer api seqno ws (toAccountRaw recipient) (address nftItem)
                  amountBig
                  (if comment recipient \<noteq> [] then Some (commentCell api (comment recipient))
                   else None)
                  (Some (secretKey kp))) (\<lambda>cell.
             sendBlockchainMessage api cell))))))))"

definition sendNftRenew :: "env \<Rightarrow> sendRenewOptions \<Rightarrow> unit io" where
  "sendNftRenew e options =
     andThen (getKeyPairAndSeqno e options) (\<lambda>(seqno, kp).
     andThen (step BodyEncoding (nftRenewBody None)) (\<lambda>body.
     andThen
       (createTransferMessage seqno (walletState options) (secretKey kp)
          (nftAddress options) (amount options) body) (\<lambda>cell.
     sendBoc e cell)))"

definition estimateNftRenew :: "env \<Rightarrow> estimateRenewOptions \<Rightarrow> message io" where
  "estimateNftRenew e options =
     andThen (checkServiceTimeOrDie e) (\<lambda>_.
     andThen (getWalletBalance e (walletState options)) (\<lambda>(wallet, seqno).
     andThen (checkWalletPositiveBalanceOrDie wallet) (\<lambda>_.
     andThen (step BodyEncoding (nftRenewBody None)) (\<lambda>body.
     andThen
       (createTransferMessage seqno (walletState options) (Buffer_alloc 64)
          (nftAddress options) (amount options) body) (\<lambda>cell.
     ok cell)))))"

text \<open>\<^verbatim>\<open>nftLinkBody(options)\<close> is handed the options object, which has no query id.\<close>

definition sendNftLink :: "env \<Rightarrow> sendLinkOptions \<Rightarrow> unit io" where
  "sendNftLink e options =
     andThen (getKeyPairAndSeqno e options) (\<lambda>(seqno, kp).
     andThen
       (step BodyEncoding
          (nftLinkBody (parseAddress e)
             \<lparr>queryId = None, linkToAddress = sl_linkToAddress options\<rparr>)) (\<lambda>body.
     andThen
       (createTransferMessage seqno (walletState options) (secretKey kp)
          (nftAddress options) (amount options) body) (\<lambda>cell.
     sendBoc e cell)))"

definition estimateNftLink :: "env \<Rightarrow> estimateLinkOptions \<Rightarrow> message io" where
  "estimateNftLink e options =
     andThen (checkServiceTimeOrDie e) (\<lambda>_.
     andThen (getWalletBalance e (walletState options)) (\<lambda>(wallet, seqno).
     andThen (checkWalletPositiveBalanceOrDie wallet) (\<lambda>_.
     andThen
       (step BodyEncoding
          (nftLinkBody (parseAddress e)
             \<lparr>queryId = None, linkToAddress = el_linkToAddress options\<rparr>)) (\<lambda>body.
     andThen
       (createTransferMessage seqno (walletState options) (Buffer_alloc 64)
          (nftAddress options) (amount options) body) (\<lambda>cell.
     ok cell)))))"

subsection \<open>Reading a run\<close>

fun isServiceTimeCheck :: "event \<Rightarrow> bool" where
  "isServiceTimeCheck ServiceTimeCheck = True"
| "isServiceTimeCheck ev = False"

fun isSecretRetrieval :: "event \<Rightarrow> bool" where
  "isSecretRetrieval (SecretRetrieval pk) = True"
| "isSecretRetrieval ev = False"

fun isPositiveBalanceCheck :: "event \<Rightarrow> bool" where
  "isPositiveBalanceCheck (PositiveBalanceCheck b) = True"
| "isPositiveBalanceCheck ev = False"

fun isSufficiencyCheck :: "event \<Rightarrow> bool" where
  "isSufficiencyCheck (SufficiencyCheck t b) = True"
| "isSufficiencyCheck ev = False"

fun isBuilding :: "event \<Rightarrow> bool" where
  "isBuilding BodyEncoding = True"
| "isBuilding (MessageAssembly m) = True"
| "isBuilding ev = False"

fun isBroadcast :: "event \<Rightarrow> bool" where
  "isBroadcast (Broadcast m) = True"
| "isBroadcast ev = False"

text \<open>The totals handed to the sufficiency check, the messages assembled and the messages
  broadcast during a run, in order.\<close>

fun sufficiencyTotals :: "event list \<Rightarrow> int list" where
  "sufficiencyTotals [] = []"
| "sufficiencyTotals (SufficiencyCheck t b # es) = t # sufficiencyTotals es"
| "sufficiencyTotals (ev # es) = sufficiencyTotals es"

fun assembled :: "event list \<Rightarrow> message list" where
  "assembled [] = []"
| "assembled (MessageAssembly m # es) = m # assembled es"
| "assembled (ev # es) = assembled es"

fun broadcasts :: "event list \<Rightarrow> message list" where
  "broadcasts [] = []"
| "broadcasts (Broadcast m # es) = m # broadcasts es"
| "broadcasts (ev # es) = broadcasts es"

text \<open>\<open>precededBy P Q t\<close>: in the run \<open>t\<close> every event of kind \<open>Q\<close> comes after an event
  of kind \<open>P\<close>.\<close>

fun precededBy :: "(event \<Rightarrow> bool) \<Rightarrow> (event \<Rightarrow> bool) \<Rightarrow> event list \<Rightarrow> bool" where
  "precededBy P Q [] = True"
| "precededBy P Q (ev # es) = (P ev \<or> (\<not> Q ev \<and> precededBy P Q es))"

subsection \<open>A sample environment\<close>

text \<open>A live service, a secret store that knows one passphrase, an account with the given
  balance and seqno 3, and endpoints that accept every message.\<close>

definition sampleEnv :: "int \<Rightarrow> env" where
  "sampleEnv bal =
     \<lparr>serviceTime = True,
      secretStore = (\<lambda>pk pw. if pw = ''secret'' then Some [''abandon'', ''ability''] else None),
      deriveKeyPair = (\<lambda>mnemonic. \<lparr>kp_publicKey = [1, 2], secretKey = [7, 7, 7]\<rparr>),
      accountState = (\<lambda>a. (\<lparr>balance = bal\<rparr>, 3)),
      dateNow = 1700000000000,
      parseAddress = (\<lambda>s. if s = [] then None else Some (Address 0 (length s))),
      commentCell = (\<lambda>s. Cell [UintField 32 0] []),
      emulation = (\<lambda>m. Some \<lparr>extra = - 2\<rparr>),
      broadcast = (\<lambda>m. True)\<rparr>"

definition sampleWallet :: walletState where
  "sampleWallet = \<lparr>publicKey = ''pk'', rawAddress = ''0:aa''\<rparr>"

definition sampleRecipient :: tonRecipientData where
  "sampleRecipient = \<lparr>toAccountRaw = ''0:bb'', comment = ''hi''\<rparr>"

definition sampleNft :: nftItemRepr where
  "sampleNft = \<lparr>address = ''0:cc''\<rparr>"

definition sampleTransferParams :: transferParams where
  "sampleTransferParams =
     \<lparr>queryId = None, newOwnerAddress = Address 0 1, responseAddress = Address 0 2,
      forwardAmount = 1, forwardPayload = None\<rparr>"

definition sampleLinkParams :: "string \<Rightarrow> linkParams" where
  "sampleLinkParams target = \<lparr>queryId = None, linkToAddress = target\<rparr>"

definition sampleSendRenew :: "int \<Rightarrow> sendRenewOptions" where
  "sampleSendRenew a =
     \<lparr>walletState = sampleWallet, nftAddress = ''0:cc'', amount = a,
      fee = \<lparr>extra = - 2\<rparr>, password = ''secret''\<rparr>"

definition sampleSendLink :: "int \<Rightarrow> sendLinkOptions" where
  "sampleSendLink a =
     \<lparr>walletState = sampleWallet, nftAddress = ''0:cc'', amount = a,
      fee = \<lparr>extra = - 2\<rparr>, password = ''secret'', sl_linkToAddress = ''0:dd''\<rparr>"

definition sampleEstimateRenew :: estimateRenewOptions where
  "sampleEstimateRenew = \<lparr>walletState = sampleWallet, nftAddress = ''0:cc'', amount = 20\<rparr>"

definition sampleEstimateLink :: estimateLinkOptions where
  "sampleEstimateLink =
     \<lparr>walletState = sampleWallet, nftAddress = ''0:cc'', amount = 20,
      el_linkToAddress = ''0:dd''\<rparr>"

section \<open>Properties\<close>

lemmas builder_defs = beginCell_def storeUint_def storeBit_def storeAddress_def storeCoins_def
  storeRef_def storeMaybeRef_def endCell_def

lemmas io_defs = ok_def throw_def step_def lift_def andThen_def

lemmas call_defs = checkServiceTimeOrDie_def checkWalletPositiveBalanceOrDie_def
  checkWalletBalanceOrDie_def getWalletBalance_def getWalletMnemonic_def
  mnemonicToPrivateKey_def createTransferMessage_def emulateMessageToWallet_def
  sendBlockchainMessage_def sendBoc_def

lemmas sample_defs = sampleEnv_def sampleWallet_def sampleRecipient_def sampleNft_def
  sampleTransferParams_def sampleLinkParams_def sampleSendRenew_def sampleSendLink_def
  sampleEstimateRenew_def sampleEstimateLink_def

lemmas run_splits = if_splits option.splits sum.splits prod.splits

subsection \<open>Encoders\<close>

lemma nftTransferBody_error: "nftTransferBody p = Inl e \<Longrightarrow> e = RangeError"
  by (auto simp: nftTransferBody_def builder_defs split: if_splits option.splits)

lemma nftRenewBody_error: "nftRenewBody ps = Inl e \<Longrightarrow> e = RangeError"
  by (auto simp: nftRenewBody_def builder_defs split: if_splits option.splits)

lemma nftLinkBody_error:
  "nftLinkBody parse p = Inl e \<Longrightarrow> e = RangeError \<or> e = FormatError"
  by (auto simp: nftLinkBody_def addressToDNSAddressFormat_def builder_defs
      split: if_splits option.splits)

lemma nftTransferBody_queryId:
  "nftTransferBody p = Inr c \<Longrightarrow> queryIdOf c = Some (orZero (queryId p))"
  by (auto simp: nftTransferBody_def builder_defs split: if_splits option.splits)

lemma nftRenewBody_queryId:
  "nftRenewBody ps = Inr c \<Longrightarrow>
     queryIdOf c = Some (orZero (case ps of None \<Rightarrow> None | Some p \<Rightarrow> queryId p))"
  by (auto simp: nftRenewBody_def builder_defs split: if_splits option.splits)

lemma nftLinkBody_queryId:
  "nftLinkBody parse p = Inr c \<Longrightarrow> queryIdOf c = Some (orZero (queryId p))"
  by (auto simp: nftLinkBody_def addressToDNSAddressFormat_def builder_defs
      split: if_splits option.splits)

lemma createNftTransfer_queryId:
  "snd (createNftTransfer e seqno ws ra na amt payload key) = Inr m \<Longrightarrow>
     queryIdOf (m_body m) = Some (dateNow e)"
  by (auto simp: createNftTransfer_def io_defs call_defs Let_def orZero_def
      split: run_splits dest!: nftTransferBody_queryId)

text \<open>
  Claim C7. For every input the transfer encoder produces a cell that consists of, in
  order: the fixed 32-bit operation tag, the 64-bit query id, the new-owner address, the
  response address, a single false bit for the absent custom payload, the coin amount of
  the forwarded value and the maybe-ref of the forward payload, which is the presence bit 1
  and the ref when the payload is non-null and a single 0 bit when it is null. The cell
  builder refuses nothing but a query id that does not fit 64 bits and a forward amount
  that is not a coin amount.
\<close>

theorem nftTransferBody_layout:
  "nftTransferBody p =
     (if 0 \<le> orZero (queryId p) \<and> orZero (queryId p) < 2 ^ 64
         \<and> 0 \<le> forwardAmount p \<and> forwardAmount p < 2 ^ 120
      then Inr (Cell [UintField 32 0x5fcc3d14,
                      UintField 64 (orZero (queryId p)),
                      AddressField (newOwnerAddress p),
                      AddressField (responseAddress p),
                      BitField False,
                      CoinsField (forwardAmount p),
                      BitField (forwardPayload p \<noteq> None)]
                     (case forwardPayload p of None \<Rightarrow> [] | Some c \<Rightarrow> [c]))
      else Inl RangeError)"
  by (simp add: nftTransferBody_def builder_defs split: option.splits)

theorem nftTransferBody_layout_witness:
  "nftTransferBody (sampleTransferParams\<lparr>queryId := Some 77,
       forwardPayload := Some (Cell [UintField 32 0] [])\<rparr>) =
     Inr (Cell [UintField 32 0x5fcc3d14, UintField 64 77, AddressField (Address 0 1),
                AddressField (Address 0 2), BitField False, CoinsField 1, BitField True]
               [Cell [UintField 32 0] []])
   \<and> nftTransferBody sampleTransferParams =
     Inr (Cell [UintField 32 0x5fcc3d14, UintField 64 0, AddressField (Address 0 1),
                AddressField (Address 0 2), BitField False, CoinsField 1, BitField False] [])"
  using nftTransferBody_layout [of "sampleTransferParams\<lparr>queryId := Some 77,
       forwardPayload := Some (Cell [UintField 32 0] [])\<rparr>"]
    nftTransferBody_layout [of sampleTransferParams]
  by (simp add: sample_defs orZero_def)

text \<open>
  Claim C8. The link-record encoder produces the 32-bit record-change tag, the 64-bit
  query id (the supplied one, 0 when it is absent) and the fixed 256-bit category
  constant, and attaches a sub-cell ref, made of a 16-bit marker, the parsed target
  address and an 8-bit trailing zero, if and only if the supplied target address string is
  non-empty; with an empty target address the cell has zero refs.
\<close>

theorem nftLinkBody_layout:
  "nftLinkBody parse p =
     (if \<not> (0 \<le> (case queryId p of None \<Rightarrow> 0 | Some v \<Rightarrow> v)
             \<and> (case queryId p of None \<Rightarrow> 0 | Some v \<Rightarrow> v) < 2 ^ 64) then Inl RangeError
      else if linkToAddress p = [] then
        Inr (Cell [UintField 32 0x4eb1f0f9,
                   UintField 64 (case queryId p of None \<Rightarrow> 0 | Some v \<Rightarrow> v),
                   UintField 256
                     0xe8d44050873dba865aa7c170ab4cce64d90839a34dcfd6cf71d14e0205443b1b] [])
      else (case parse (linkToAddress p) of
              None \<Rightarrow> Inl FormatError
            | Some a \<Rightarrow>
                Inr (Cell [UintField 32 0x4eb1f0f9,
                           UintField 64 (case queryId p of None \<Rightarrow> 0 | Some v \<Rightarrow> v),
                           UintField 256
                             0xe8d44050873dba865aa7c170ab4cce64d90839a34dcfd6cf71d14e0205443b1b]
                          [Cell [UintField 16 0x9fd3, AddressField a, UintField 8 0] []])))
   \<and> (nftLinkBody parse p = Inr c \<longrightarrow> (refs c \<noteq> []) = (linkToAddress p \<noteq> []))
   \<and> (linkToAddress p = [] \<and> nftLinkBody parse p = Inr c \<longrightarrow> length (refs c) = 0)"
  by (auto simp: nftLinkBody_def addressToDNSAddressFormat_def builder_defs orZero_def
      DNS_CATEGORY_WALLET_def split: option.splits if_splits)

theorem nftLinkBody_layout_witness:
  "nftLinkBody (parseAddress (sampleEnv 100)) \<lparr>queryId = Some 77, linkToAddress = ''0:dd''\<rparr> =
     Inr (Cell [UintField 32 0x4eb1f0f9, UintField 64 77,
                UintField 256
                  0xe8d44050873dba865aa7c170ab4cce64d90839a34dcfd6cf71d14e0205443b1b]
               [Cell [UintField 16 0x9fd3, AddressField (Address 0 4), UintField 8 0] []])
   \<and> refs (Cell [UintField 32 0x4eb1f0f9, UintField 64 77,
                UintField 256
                  0xe8d44050873dba865aa7c170ab4cce64d90839a34dcfd6cf71d14e0205443b1b]
               [Cell [UintField 16 0x9fd3, AddressField (Address 0 4), UintField 8 0] []]) \<noteq> []
   \<and> nftLinkBody (parseAddress (sampleEnv 100)) \<lparr>queryId = Some 77, linkToAddress = []\<rparr> =
     Inr (Cell [UintField 32 0x4eb1f0f9, UintField 64 77,
                UintField 256
                  0xe8d44050873dba865aa7c170ab4cce64d90839a34dcfd6cf71d14e0205443b1b] [])
   \<and> nftLinkBody (parseAddress (sampleEnv 100)) (sampleLinkParams []) =
     Inr (Cell [UintField 32 0x4eb1f0f9, UintField 64 0,
                UintField 256
                  0xe8d44050873dba865aa7c170ab4cce64d90839a34dcfd6cf71d14e0205443b1b] [])
   \<and> length (refs (Cell [UintField 32 0x4eb1f0f9, UintField 64 0,
                UintField 256
                  0xe8d44050873dba865aa7c170ab4cce64d90839a34dcfd6cf71d14e0205443b1b] [])) = 0"
  using nftLinkBody_layout [of "parseAddress (sampleEnv 100)"
      "\<lparr>queryId = Some 77, linkToAddress = ''0:dd''\<rparr>"
      "Cell [UintField 32 0x4eb1f0f9, UintField 64 77,
             UintField 256
               0xe8d44050873dba865aa7c170ab4cce64d90839a34dcfd6cf71d14e0205443b1b]
            [Cell [UintField 16 0x9fd3, AddressField (Address 0 4), UintField 8 0] []]"]
    nftLinkBody_layout [of "parseAddress (sampleEnv 100)"
      "\<lparr>queryId = Some 77, linkToAddress = []\<rparr>" "Cell [] []"]
    nftLinkBody_layout [of "parseAddress (sampleEnv 100)" "sampleLinkParams []"
      "Cell [UintField 32 0x4eb1f0f9, UintField 64 0,
             UintField 256
               0xe8d44050873dba865aa7c170ab4cce64d90839a34dcfd6cf71d14e0205443b1b] []"]
  by (simp add: sample_defs)

text \<open>
  Claim C10. For each of the three operation encoders, a query id of 0 supplied
  explicitly yields exactly the same result as an omitted query id.
\<close>

theorem encoders_zero_query_id_is_unset:
  "nftTransferBody (p\<lparr>queryId := Some 0\<rparr>) = nftTransferBody (p\<lparr>queryId := None\<rparr>)
   \<and> nftRenewBody (Some (q\<lparr>queryId := Some 0\<rparr>)) = nftRenewBody (Some (q\<lparr>queryId := None\<rparr>))
   \<and> nftRenewBody (Some (q\<lparr>queryId := Some 0\<rparr>)) = nftRenewBody None
   \<and> nftLinkBody parse (l\<lparr>queryId := Some 0\<rparr>) = nftLinkBody parse (l\<lparr>queryId := None\<rparr>)"
  by (simp add: nftTransferBody_def nftRenewBody_def nftLinkBody_def orZero_def
      cong: sum.case_cong if_cong)

theorem encoders_zero_query_id_is_unset_witness:
  "nftTransferBody (sampleTransferParams\<lparr>queryId := Some 0\<rparr>) =
     nftTransferBody (sampleTransferParams\<lparr>queryId := None\<rparr>)
   \<and> nftTransferBody (sampleTransferParams\<lparr>queryId := None\<rparr>) =
     Inr (Cell [UintField 32 0x5fcc3d14, UintField 64 0, AddressField (Address 0 1),
                AddressField (Address 0 2), BitField False, CoinsField 1, BitField False] [])
   \<and> nftRenewBody (Some \<lparr>queryId = Some 0\<rparr>) = nftRenewBody None
   \<and> nftRenewBody None =
     Inr (Cell [UintField 32 0x4eb1f0f9, UintField 64 0, UintField 256 0] [])"
  using encoders_zero_query_id_is_unset [of sampleTransferParams "\<lparr>queryId = None\<rparr>"]
  by (simp add: sample_defs nftTransferBody_def nftRenewBody_def builder_defs orZero_def)

text \<open>
  Claim C4, as amended. All three operation encoders accept an optional query id and
  default it to 0 when it is absent, the transfer encoder included; the
  current-time-derived query id of a transfer is supplied by the encoder's caller
  \<^verbatim>\<open>createNftTransfer\<close>, which always passes \<^verbatim>\<open>Date.now()\<close>.
\<close>

theorem encoders_default_query_id:
  "(queryId p = None \<and> nftTransferBody p = Inr c1 \<longrightarrow> queryIdOf c1 = Some 0)
   \<and> ((ps = None \<or> (\<exists>q. ps = Some q \<and> queryId q = None)) \<and> nftRenewBody ps = Inr c2
        \<longrightarrow> queryIdOf c2 = Some 0)
   \<and> (queryId l = None \<and> nftLinkBody parse l = Inr c3 \<longrightarrow> queryIdOf c3 = Some 0)
   \<and> (snd (createNftTransfer e seqno ws ra na amt payload key) = Inr m
        \<longrightarrow> queryIdOf (m_body m) = Some (dateNow e))"
  using nftTransferBody_queryId [of p c1] nftRenewBody_queryId [of ps c2]
    nftLinkBody_queryId [of parse l c3] createNftTransfer_queryId [of e seqno ws ra na amt payload key m]
  by (auto simp: orZero_def)

theorem encoders_default_query_id_witness:
  "queryId sampleTransferParams = None
   \<and> map_sum id queryIdOf (nftTransferBody sampleTransferParams) = Inr (Some 0)
   \<and> map_sum id queryIdOf (nftRenewBody None) = Inr (Some 0)
   \<and> map_sum id queryIdOf
        (nftLinkBody (parseAddress (sampleEnv 100)) (sampleLinkParams ''0:dd'')) = Inr (Some 0)
   \<and> map_sum id (\<lambda>m. queryIdOf (m_body m))
        (snd (createNftTransfer (sampleEnv 100) 3 sampleWallet ''0:bb'' ''0:cc'' 5 None None))
      = Inr (Some 1700000000000)"
  using encoders_default_query_id [of sampleTransferParams
      "Cell [UintField 32 0x5fcc3d14, UintField 64 0, AddressField (Address 0 1),
             AddressField (Address 0 2), BitField False, CoinsField 1, BitField False] []"
      None "Cell [UintField 32 0x4eb1f0f9, UintField 64 0, UintField 256 0] []"
      "sampleLinkParams ''0:dd''" "parseAddress (sampleEnv 100)"
      "Cell [UintField 32 0x4eb1f0f9, UintField 64 0, UintField 256 DNS_CATEGORY_WALLET]
            [Cell [UintField 16 0x9fd3, AddressField (Address 0 4), UintField 8 0] []]"
      "sampleEnv 100" 3 sampleWallet "''0:bb''" "''0:cc''" 5 None None]
  by (simp add: sample_defs nftTransferBody_def nftRenewBody_def nftLinkBody_def
      addressToDNSAddressFormat_def createNftTransfer_def builder_defs io_defs call_defs
      orZero_def DNS_CATEGORY_WALLET_def nftTransferForwardAmount_def Let_def)

text \<open>
  The transfer encoder does not consult the clock: with an absent query id it stores 0,
  where the encoder worded by the specification stores the current time.
\<close>

theorem nftTransferBody_default_not_time:
  "queryId sampleTransferParams = None
   \<and> map_sum id queryIdOf (nftTransferBody sampleTransferParams) = Inr (Some 0)
   \<and> nftTransferBody sampleTransferParams
        \<noteq> nftTransferBody_spec (dateNow (sampleEnv 100)) sampleTransferParams"
  by (simp add: sample_defs nftTransferBody_def nftTransferBody_spec_def builder_defs orZero_def)


subsection \<open>Reading a JavaScript number into \<^verbatim>\<open>BigNumber\<close>\<close>

lemma bitLength_bounds: "0 < n \<Longrightarrow> 2 ^ (bitLength n - 1) \<le> n \<and> n < 2 ^ bitLength n"
proof (induction n rule: bitLength.induct)
  case (1 n)
  show ?case
  proof (cases "n div 2 = 0")
    case True
    with "1.prems" have "n = 1" by (simp add: div_eq_0_iff)
    then show ?thesis by (simp add: bitLength.simps)
  next
    case False
    with "1.IH" "1.prems"
    have ih: "2 ^ (bitLength (n div 2) - 1) \<le> n div 2" "n div 2 < 2 ^ bitLength (n div 2)"
      by auto
    have pos: "0 < bitLength (n div 2)"
      using False by (simp add: bitLength.simps [of "n div 2"])
    have eq: "bitLength n = Suc (bitLength (n div 2))"
      using "1.prems" by (simp add: bitLength.simps [of n])
    have "2 ^ (bitLength n - 1) = 2 * 2 ^ (bitLength (n div 2) - 1)"
      using pos eq by (cases "bitLength (n div 2)") auto
    also have "\<dots> \<le> 2 * (n div 2)" using ih(1) by simp
    also have "\<dots> \<le> n" by simp
    finally have a: "2 ^ (bitLength n - 1) \<le> n" .
    have "n < 2 * (n div 2) + 2" by presburger
    also have "\<dots> \<le> 2 * 2 ^ bitLength (n div 2)" using ih(2) by simp
    finally have b: "n < 2 ^ bitLength n" using eq by simp
    from a b show ?thesis by simp
  qed
qed

lemma toDouble_ge:
  assumes "2 ^ 53 \<le> c"
  shows "2 ^ 53 \<le> toDouble c"
proof -
  have cpos: "0 < c"
    using assms by (metis less_le_trans zero_less_numeral zero_less_power)
  define b where "b = bitLength c"
  have bb: "2 ^ (b - 1) \<le> c" "c < 2 ^ b"
    using bitLength_bounds [OF cpos] by (simp_all add: b_def)
  have lt: "(2::nat) ^ 53 < 2 ^ b" using assms bb(2) by linarith
  have "53 < b" by (rule power_less_imp_less_exp [where a = "2::nat"]) (simp, rule lt)
  then have b54: "54 \<le> b" by simp
  define e where "e = b - 53"
  have e1: "1 \<le> e" using b54 by (simp add: e_def)
  have split: "b - 1 = 52 + e" using b54 by (simp add: e_def)
  have "(2::nat) ^ (52 + e) \<le> c" using bb(1) unfolding split .
  then have "(2::nat) ^ 52 * 2 ^ e \<le> c" by (simp only: power_add)
  then have q: "2 ^ 52 \<le> c div 2 ^ e"
    by (simp add: less_eq_div_iff_mult_less_eq)
  have "(2::nat) ^ 53 \<le> 2 ^ 52 * 2 ^ e"
  proof -
    have "(2::nat) ^ 1 \<le> 2 ^ e" using e1 by (intro power_increasing) auto
    then have "(2::nat) ^ 52 * 2 ^ 1 \<le> 2 ^ 52 * 2 ^ e" by (intro mult_le_mono2)
    then show ?thesis by simp
  qed
  also have "\<dots> \<le> (c div 2 ^ e) * 2 ^ e" using q by (intro mult_le_mono1)
  finally have base: "2 ^ 53 \<le> (c div 2 ^ e) * 2 ^ e" .
  have "(c div 2 ^ e) * 2 ^ e \<le> (c div 2 ^ e + 1) * 2 ^ e" by simp
  with base have base': "2 ^ 53 \<le> (c div 2 ^ e + 1) * 2 ^ e" by linarith
  show ?thesis
    using assms base base' unfolding toDouble_def Let_def b_def [symmetric] e_def [symmetric]
    by (simp del: power_Suc add: b_def [symmetric] e_def [symmetric])
qed

lemma toDouble_eq_safe: "x < 2 ^ 53 \<Longrightarrow> toDouble c = x \<Longrightarrow> c = x"
  using toDouble_ge [of c] by (cases "c < 2 ^ 53") (auto simp: toDouble_def)

lemma shortestFrom_safe: "x < 2 ^ 53 \<Longrightarrow> shortestFrom x j = x"
proof (induction j)
  case 0
  then show ?case by (simp add: shortestFrom.simps)
next
  case (Suc j)
  define u :: nat where "u = 10 ^ Suc j"
  define lo where "lo = (x div u) * u"
  define hi where "hi = lo + u"
  have upos: "0 < u" by (simp add: u_def)
  have lohi: "lo < hi" using upos by (simp add: hi_def)
  have l: "toDouble lo = x \<Longrightarrow> lo = x" using Suc.prems by (rule toDouble_eq_safe)
  have h: "toDouble hi = x \<Longrightarrow> hi = x" using Suc.prems by (rule toDouble_eq_safe)
  have ih: "shortestFrom x (Suc j - 1) = x" using Suc by simp
  have "shortestFrom x (Suc j) =
     (if toDouble lo = x \<and> toDouble hi = x then
              (if x - lo < hi - x then lo
               else if hi - x < x - lo then hi
               else if even (x div u) then lo else hi)
            else if toDouble lo = x then lo
            else if toDouble hi = x then hi
            else shortestFrom x (Suc j - 1))"
    by (subst shortestFrom.simps) (simp only: Let_def u_def lo_def hi_def nat.simps if_False)
  also have "\<dots> = x"
    using l h ih lohi by auto
  finally show ?case .
qed

lemma BigNumber_of_number_safe: "\<bar>v\<bar> < 2 ^ 53 \<Longrightarrow> BigNumber_of_number v = v"
proof -
  assume a: "\<bar>v\<bar> < 2 ^ 53"
  then have "nat \<bar>v\<bar> < 2 ^ 53" by (simp add: nat_less_iff)
  then have "Number_toString (nat \<bar>v\<bar>) = nat \<bar>v\<bar>"
    by (simp only: Number_toString_def shortestFrom_safe)
  then show ?thesis by (auto simp: BigNumber_of_number_def abs_if split: if_splits)
qed

lemma Number_toString_0: "Number_toString 0 = 0"
  by (simp only: Number_toString_def shortestFrom_safe [of 0, simplified])

lemma BigNumber_of_number_minus: "BigNumber_of_number (- v) = - BigNumber_of_number v"
  by (auto simp: BigNumber_of_number_def Number_toString_0)

lemma Number_toString_2_63: "Number_toString 9223372036854775808 = 9223372036854776000"
  by (simp add: Number_toString_def shortestFrom.simps decimalDigits.simps toDouble_def
      bitLength.simps Let_def)

lemma BigNumber_of_number_2_63:
  "BigNumber_of_number 9223372036854775808 = 9223372036854776000"
  by (simp add: BigNumber_of_number_def Number_toString_2_63)

subsection \<open>Runs of \<^verbatim>\<open>sendNftTransfer\<close>\<close>

lemmas send_defs = sendNftTransfer_def createNftTransfer_def io_defs call_defs Let_def
  BigNumber_of_number_minus BigInt_of_BigNumber_def toNano_0_05_def

lemma sendNftTransfer_head:
  "serviceTime api \<Longrightarrow> secretStore api (publicKey ws) pw = Some mn \<Longrightarrow>
     take 5 (fst (sendNftTransfer api ws r n f pw)) =
       [ServiceTimeCheck, SecretRetrieval (publicKey ws), KeyDerivation,
        AccountStateFetch (rawAddress ws),
        SufficiencyCheck
          (max toNano_0_05 (toNano_0_05 - BigNumber_of_number (extra f))
             - BigNumber_of_number (extra f))
          (balance (fst (accountState api (rawAddress ws))))]
     \<and> sufficiencyTotals (fst (sendNftTransfer api ws r n f pw)) =
       [max toNano_0_05 (toNano_0_05 - BigNumber_of_number (extra f))
          - BigNumber_of_number (extra f)]
     \<and> (snd (sendNftTransfer api ws r n f pw) = Inl InsufficientBalance) =
       (balance (fst (accountState api (rawAddress ws)))
          < max toNano_0_05 (toNano_0_05 - BigNumber_of_number (extra f))
              - BigNumber_of_number (extra f))"
  by (auto simp: send_defs split: run_splits dest: nftTransferBody_error)

lemma sendNftTransfer_insufficient:
  "serviceTime api \<Longrightarrow> secretStore api (publicKey ws) pw = Some mn \<Longrightarrow>
   balance (fst (accountState api (rawAddress ws)))
     < max toNano_0_05 (toNano_0_05 - BigNumber_of_number (extra f))
         - BigNumber_of_number (extra f) \<Longrightarrow>
     sendNftTransfer api ws r n f pw =
       ([ServiceTimeCheck, SecretRetrieval (publicKey ws), KeyDerivation,
         AccountStateFetch (rawAddress ws),
         SufficiencyCheck
           (max toNano_0_05 (toNano_0_05 - BigNumber_of_number (extra f))
              - BigNumber_of_number (extra f))
           (balance (fst (accountState api (rawAddress ws))))],
        Inl InsufficientBalance)"
  by (auto simp: send_defs split: run_splits)

lemma sendNftTransfer_success:
  "serviceTime api \<Longrightarrow> secretStore api (publicKey ws) pw = Some mn \<Longrightarrow>
   max toNano_0_05 (toNano_0_05 - BigNumber_of_number (extra f))
     - BigNumber_of_number (extra f) \<le> balance (fst (accountState api (rawAddress ws))) \<Longrightarrow>
   max toNano_0_05 (toNano_0_05 - BigNumber_of_number (extra f)) < 10 ^ 21 \<Longrightarrow>
   parseAddress api (toAccountRaw r) \<noteq> None \<Longrightarrow>
   parseAddress api (rawAddress ws) \<noteq> None \<Longrightarrow>
   0 \<le> dateNow api \<Longrightarrow> dateNow api < 2 ^ 64 \<Longrightarrow>
     map m_value (assembled (fst (sendNftTransfer api ws r n f pw))) =
       [max toNano_0_05 (toNano_0_05 - BigNumber_of_number (extra f))]
     \<and> map m_value (broadcasts (fst (sendNftTransfer api ws r n f pw))) =
       [max toNano_0_05 (toNano_0_05 - BigNumber_of_number (extra f))]
     \<and> map isSufficiencyCheck (fst (sendNftTransfer api ws r n f pw)) =
       [False, False, False, False, True, False, False, False]
     \<and> map isBroadcast (fst (sendNftTransfer api ws r n f pw)) =
       [False, False, False, False, False, False, False, True]"
  by (auto simp: send_defs nftTransferBody_def builder_defs orZero_def
      nftTransferForwardAmount_def split: run_splits)



lemma sendNftTransfer_not_InvalidAmount:
  "snd (sendNftTransfer api ws r n f pw) \<noteq> Inl InvalidAmount"
  by (auto simp: send_defs split: run_splits dest: nftTransferBody_error)

lemma sendNftTransfer_preceded:
  "precededBy isSufficiencyCheck isBroadcast (fst (sendNftTransfer api ws r n f pw))"
  by (auto simp: send_defs split: run_splits)

subsection \<open>Runs of \<^verbatim>\<open>sendNftRenew\<close> and \<^verbatim>\<open>sendNftLink\<close>\<close>

lemmas renew_defs = sendNftRenew_def sendNftLink_def getKeyPairAndSeqno_def io_defs call_defs
  Let_def

lemma sendNftRenew_delegates:
  "snd (getKeyPairAndSeqno e options) = Inl err \<Longrightarrow>
     sendNftRenew e options = (fst (getKeyPairAndSeqno e options), Inl err)"
  by (cases "getKeyPairAndSeqno e (options :: sendRenewOptions)")
     (auto simp: sendNftRenew_def andThen_def split: run_splits)

lemma sendNftLink_delegates:
  "snd (getKeyPairAndSeqno e options) = Inl err \<Longrightarrow>
     sendNftLink e options = (fst (getKeyPairAndSeqno e options), Inl err)"
  by (cases "getKeyPairAndSeqno e (options :: sendLinkOptions)")
     (auto simp: sendNftLink_def andThen_def split: run_splits)

lemma getKeyPairAndSeqno_run:
  "serviceTime e \<Longrightarrow>
   secretStore e (publicKey (walletState options)) (password options) = Some mn \<Longrightarrow>
     getKeyPairAndSeqno e options =
       ([ServiceTimeCheck, SecretRetrieval (publicKey (walletState options)), KeyDerivation,
         AccountStateFetch (rawAddress (walletState options)),
         SufficiencyCheck (amount options + extra (fee options))
           (balance (fst (accountState e (rawAddress (walletState options)))))],
        if balance (fst (accountState e (rawAddress (walletState options))))
             < amount options + extra (fee options)
        then Inl InsufficientBalance
        else Inr (snd (accountState e (rawAddress (walletState options))), deriveKeyPair e mn))"
  by (auto simp: renew_defs split: run_splits)

lemma sendNftRenew_head:
  "serviceTime e \<Longrightarrow>
   secretStore e (publicKey (walletState options)) (password options) = Some mn \<Longrightarrow>
     take 5 (fst (sendNftRenew e options)) =
       [ServiceTimeCheck, SecretRetrieval (publicKey (walletState options)), KeyDerivation,
        AccountStateFetch (rawAddress (walletState options)),
        SufficiencyCheck (amount options + extra (fee options))
          (balance (fst (accountState e (rawAddress (walletState options)))))]"
  by (auto simp: renew_defs split: run_splits)

lemma sendNftRenew_insufficient:
  "serviceTime e \<Longrightarrow>
   secretStore e (publicKey (walletState options)) (password options) = Some mn \<Longrightarrow>
   balance (fst (accountState e (rawAddress (walletState options))))
     < amount options + extra (fee options) \<Longrightarrow>
     sendNftRenew e options =
       ([ServiceTimeCheck, SecretRetrieval (publicKey (walletState options)), KeyDerivation,
         AccountStateFetch (rawAddress (walletState options)),
         SufficiencyCheck (amount options + extra (fee options))
           (balance (fst (accountState e (rawAddress (walletState options)))))],
        Inl InsufficientBalance)"
  by (auto simp: renew_defs split: run_splits)

lemma sendNftRenew_success:
  "serviceTime e \<Longrightarrow>
   secretStore e (publicKey (walletState options)) (password options) = Some mn \<Longrightarrow>
   amount options + extra (fee options)
     \<le> balance (fst (accountState e (rawAddress (walletState options)))) \<Longrightarrow>
     map isSufficiencyCheck (fst (sendNftRenew e options)) =
       [False, False, False, False, True, False, False, False]
     \<and> map isBroadcast (fst (sendNftRenew e options)) =
       [False, False, False, False, False, False, False, True]"
  by (auto simp: renew_defs nftRenewBody_def builder_defs orZero_def split: run_splits)

lemma sendNftRenew_preceded:
  "precededBy isSufficiencyCheck isBroadcast (fst (sendNftRenew e options))"
  by (auto simp: renew_defs split: run_splits)

lemma sendNftLink_head:
  "serviceTime e \<Longrightarrow>
   secretStore e (publicKey (walletState options)) (password options) = Some mn \<Longrightarrow>
     take 5 (fst (sendNftLink e options)) =
       [ServiceTimeCheck, SecretRetrieval (publicKey (walletState options)), KeyDerivation,
        AccountStateFetch (rawAddress (walletState options)),
        SufficiencyCheck (amount options + extra (fee options))
          (balance (fst (accountState e (rawAddress (walletState options)))))]"
  by (auto simp: renew_defs split: run_splits)

lemma sendNftLink_insufficient:
  "serviceTime e \<Longrightarrow>
   secretStore e (publicKey (walletState options)) (password options) = Some mn \<Longrightarrow>
   balance (fst (accountState e (rawAddress (walletState options))))
     < amount options + extra (fee options) \<Longrightarrow>
     sendNftLink e options =
       ([ServiceTimeCheck, SecretRetrieval (publicKey (walletState options)), KeyDerivation,
         AccountStateFetch (rawAddress (walletState options)),
         SufficiencyCheck (amount options + extra (fee options))
           (balance (fst (accountState e (rawAddress (walletState options)))))],
        Inl InsufficientBalance)"
  by (auto simp: renew_defs split: run_splits)

lemma sendNftLink_success:
  "serviceTime e \<Longrightarrow>
   secretStore e (publicKey (walletState options)) (password options) = Some mn \<Longrightarrow>
   amount options + extra (fee options)
     \<le> balance (fst (accountState e (rawAddress (walletState options)))) \<Longrightarrow>
   sl_linkToAddress options = [] \<or> parseAddress e (sl_linkToAddress options) \<noteq> None \<Longrightarrow>
     map isSufficiencyCheck (fst (sendNftLink e options)) =
       [False, False, False, False, True, False, False, False]
     \<and> map isBroadcast (fst (sendNftLink e options)) =
       [False, False, False, False, False, False, False, True]"
  by (auto simp: renew_defs nftLinkBody_def addressToDNSAddressFormat_def builder_defs
      orZero_def DNS_CATEGORY_WALLET_def split: run_splits)

lemma sendNftLink_preceded:
  "precededBy isSufficiencyCheck isBroadcast (fst (sendNftLink e options))"
  by (auto simp: renew_defs split: run_splits)

subsection \<open>Runs of the estimate entry points\<close>

lemmas estimate_defs = estimateNftTransfer_def estimateNftRenew_def estimateNftLink_def
  createNftTransfer_def io_defs call_defs Let_def Buffer_alloc_def

lemma estimateNftTransfer_unavailable:
  "\<not> serviceTime api \<Longrightarrow>
     estimateNftTransfer api ws r n = ([ServiceTimeCheck], Inl ServiceUnavailable)"
  by (auto simp: estimate_defs split: run_splits)

lemma estimateNftTransfer_head:
  "serviceTime api \<Longrightarrow>
     take 3 (fst (estimateNftTransfer api ws r n)) =
       [ServiceTimeCheck, AccountStateFetch (rawAddress ws),
        PositiveBalanceCheck (balance (fst (accountState api (rawAddress ws))))]"
  by (auto simp: estimate_defs split: run_splits)

lemma estimateNftTransfer_empty:
  "serviceTime api \<Longrightarrow> balance (fst (accountState api (rawAddress ws))) \<le> 0 \<Longrightarrow>
     estimateNftTransfer api ws r n =
       ([ServiceTimeCheck, AccountStateFetch (rawAddress ws),
         PositiveBalanceCheck (balance (fst (accountState api (rawAddress ws))))],
        Inl EmptyBalance)"
  by (auto simp: estimate_defs split: run_splits)

lemma estimateNftTransfer_weak:
  "\<not> list_ex isSufficiencyCheck (fst (estimateNftTransfer api ws r n))
   \<and> (0 < balance (fst (accountState api (rawAddress ws))) \<longrightarrow>
        snd (estimateNftTransfer api ws r n) \<noteq> Inl EmptyBalance
        \<and> snd (estimateNftTransfer api ws r n) \<noteq> Inl InsufficientBalance)"
  by (auto simp: estimate_defs split: run_splits dest: nftTransferBody_error)

lemma estimateNftTransfer_success:
  "serviceTime api \<Longrightarrow> 0 < balance (fst (accountState api (rawAddress ws))) \<Longrightarrow>
   parseAddress api (toAccountRaw r) \<noteq> None \<Longrightarrow>
   parseAddress api (rawAddress ws) \<noteq> None \<Longrightarrow>
   0 \<le> dateNow api \<Longrightarrow> dateNow api < 2 ^ 64 \<Longrightarrow>
     map isBuilding (fst (estimateNftTransfer api ws r n)) =
       [False, False, False, True, True, False]
     \<and> map m_secretKey (assembled (fst (estimateNftTransfer api ws r n))) = [replicate 64 0]
     \<and> map m_value (assembled (fst (estimateNftTransfer api ws r n))) = [10 ^ 9]"
  by (auto simp: estimate_defs nftTransferBody_def builder_defs orZero_def
      nftTransferForwardAmount_def initNftTransferAmount_def split: run_splits)

lemma estimateNftTransfer_always:
  "precededBy isServiceTimeCheck isBuilding (fst (estimateNftTransfer api ws r n))
   \<and> precededBy isPositiveBalanceCheck isBuilding (fst (estimateNftTransfer api ws r n))
   \<and> (\<forall>m \<in> set (assembled (fst (estimateNftTransfer api ws r n))).
        m_secretKey m = replicate 64 0)
   \<and> \<not> list_ex isSecretRetrieval (fst (estimateNftTransfer api ws r n))"
  by (auto simp: estimate_defs split: run_splits)

lemma estimateNftRenew_unavailable:
  "\<not> serviceTime e \<Longrightarrow> estimateNftRenew e options = ([ServiceTimeCheck], Inl ServiceUnavailable)"
  by (auto simp: estimate_defs split: run_splits)

lemma estimateNftRenew_head:
  "serviceTime e \<Longrightarrow>
     take 3 (fst (estimateNftRenew e options)) =
       [ServiceTimeCheck, AccountStateFetch (rawAddress (walletState options)),
        PositiveBalanceCheck (balance (fst (accountState e (rawAddress (walletState options)))))]"
  by (auto simp: estimate_defs split: run_splits)

lemma estimateNftRenew_empty:
  "serviceTime e \<Longrightarrow>
   balance (fst (accountState e (rawAddress (walletState options)))) \<le> 0 \<Longrightarrow>
     estimateNftRenew e options =
       ([ServiceTimeCheck, AccountStateFetch (rawAddress (walletState options)),
         PositiveBalanceCheck (balance (fst (accountState e (rawAddress (walletState options)))))],
        Inl EmptyBalance)"
  by (auto simp: estimate_defs split: run_splits)

lemma estimateNftRenew_weak:
  "\<not> list_ex isSufficiencyCheck (fst (estimateNftRenew e options))
   \<and> (0 < balance (fst (accountState e (rawAddress (walletState options)))) \<longrightarrow>
        snd (estimateNftRenew e options) \<noteq> Inl EmptyBalance
        \<and> snd (estimateNftRenew e options) \<noteq> Inl InsufficientBalance)"
  by (auto simp: estimate_defs split: run_splits dest: nftRenewBody_error)

lemma estimateNftRenew_success:
  "serviceTime e \<Longrightarrow>
   0 < balance (fst (accountState e (rawAddress (walletState options)))) \<Longrightarrow>
     map isBuilding (fst (estimateNftRenew e options)) = [False, False, False, True, True]
     \<and> map m_secretKey (assembled (fst (estimateNftRenew e options))) = [replicate 64 0]
     \<and> map_sum id m_secretKey (snd (estimateNftRenew e options)) = Inr (replicate 64 0)"
  by (auto simp: estimate_defs nftRenewBody_def builder_defs orZero_def split: run_splits)

lemma estimateNftRenew_always:
  "precededBy isServiceTimeCheck isBuilding (fst (estimateNftRenew e options))
   \<and> precededBy isPositiveBalanceCheck isBuilding (fst (estimateNftRenew e options))
   \<and> (\<forall>m \<in> set (assembled (fst (estimateNftRenew e options))).
        m_secretKey m = replicate 64 0)
   \<and> \<not> list_ex isSecretRetrieval (fst (estimateNftRenew e options))"
  by (auto simp: estimate_defs split: run_splits)

lemma estimateNftLink_unavailable:
  "\<not> serviceTime e \<Longrightarrow> estimateNftLink e options = ([ServiceTimeCheck], Inl ServiceUnavailable)"
  by (auto simp: estimate_defs split: run_splits)

lemma estimateNftLink_head:
  "serviceTime e \<Longrightarrow>
     take 3 (fst (estimateNftLink e options)) =
       [ServiceTimeCheck, AccountStateFetch (rawAddress (walletState options)),
        PositiveBalanceCheck (balance (fst (accountState e (rawAddress (walletState options)))))]"
  by (auto simp: estimate_defs split: run_splits)

lemma estimateNftLink_empty:
  "serviceTime e \<Longrightarrow>
   balance (fst (accountState e (rawAddress (walletState options)))) \<le> 0 \<Longrightarrow>
     estimateNftLink e options =
       ([ServiceTimeCheck, AccountStateFetch (rawAddress (walletState options)),
         PositiveBalanceCheck (balance (fst (accountState e (rawAddress (walletState options)))))],
        Inl EmptyBalance)"
  by (auto simp: estimate_defs split: run_splits)

lemma estimateNftLink_weak:
  "\<not> list_ex isSufficiencyCheck (fst (estimateNftLink e options))
   \<and> (0 < balance (fst (accountState e (rawAddress (walletState options)))) \<longrightarrow>
        snd (estimateNftLink e options) \<noteq> Inl EmptyBalance
        \<and> snd (estimateNftLink e options) \<noteq> Inl InsufficientBalance)"
  by (auto simp: estimate_defs split: run_splits dest: nftLinkBody_error)

lemma estimateNftLink_success:
  "serviceTime e \<Longrightarrow>
   0 < balance (fst (accountState e (rawAddress (walletState options)))) \<Longrightarrow>
   el_linkToAddress options = [] \<or> parseAddress e (el_linkToAddress options) \<noteq> None \<Longrightarrow>
     map isBuilding (fst (estimateNftLink e options)) = [False, False, False, True, True]
     \<and> map m_secretKey (assembled (fst (estimateNftLink e options))) = [replicate 64 0]
     \<and> map_sum id m_secretKey (snd (estimateNftLink e options)) = Inr (replicate 64 0)"
  by (auto simp: estimate_defs nftLinkBody_def addressToDNSAddressFormat_def builder_defs
      orZero_def DNS_CATEGORY_WALLET_def split: run_splits)

lemma estimateNftLink_always:
  "precededBy isServiceTimeCheck isBuilding (fst (estimateNftLink e options))
   \<and> precededBy isPositiveBalanceCheck isBuilding (fst (estimateNftLink e options))
   \<and> (\<forall>m \<in> set (assembled (fst (estimateNftLink e options))).
        m_secretKey m = replicate 64 0)
   \<and> \<not> list_ex isSecretRetrieval (fst (estimateNftLink e options))"
  by (auto simp: estimate_defs split: run_splits)

subsection \<open>Amount netting in \<^verbatim>\<open>sendNftTransfer\<close>\<close>

lemmas sample_run_defs = sendNftTransfer_def createNftTransfer_def nftTransferBody_def
  builder_defs io_defs call_defs sample_defs Let_def orZero_def nftTransferForwardAmount_def
  BigNumber_of_number_minus BigNumber_of_number_safe BigNumber_of_number_2_63
  BigInt_of_BigNumber_def toNano_0_05_def

text \<open>
  Claim C1, as amended. In \<^verbatim>\<open>sendNftTransfer\<close> the amount compared against the wallet
  balance by the sufficiency check equals \<open>finalAmount - feeExtra\<close>, the final amount plus
  the negated fee delta, where \<open>finalAmount\<close> is the clamped netting result and
  \<open>feeExtra\<close> is \<^verbatim>\<open>fee.event.extra\<close>, an integer of magnitude below \<open>2\<^sup>5\<^sup>3\<close>; once the
  service-time check and the key retrieval have passed, the check is run on exactly that
  total and fails exactly when the total exceeds the balance. For \<open>feeExtra = -2\<close> the
  final amount is 50000002 and the compared total is 50000004, so with balance
  1000000000 the check passes.
\<close>

theorem sendNftTransfer_total_compared:
  "serviceTime api \<and> secretStore api (publicKey ws) pw = Some mn \<and> \<bar>extra f\<bar> < 2 ^ 53 \<longrightarrow>
     take 5 (fst (sendNftTransfer api ws r n f pw)) =
       [ServiceTimeCheck, SecretRetrieval (publicKey ws), KeyDerivation,
        AccountStateFetch (rawAddress ws),
        SufficiencyCheck (max toNano_0_05 (toNano_0_05 - extra f) - extra f)
          (balance (fst (accountState api (rawAddress ws))))]
     \<and> sufficiencyTotals (fst (sendNftTransfer api ws r n f pw)) =
       [max toNano_0_05 (toNano_0_05 - extra f) - extra f]
     \<and> (snd (sendNftTransfer api ws r n f pw) = Inl InsufficientBalance) =
       (balance (fst (accountState api (rawAddress ws)))
          < max toNano_0_05 (toNano_0_05 - extra f) - extra f)"
proof
  assume a: "serviceTime api \<and> secretStore api (publicKey ws) pw = Some mn
    \<and> \<bar>extra f\<bar> < 2 ^ 53"
  then have e: "BigNumber_of_number (extra f) = extra f"
    by (simp only: BigNumber_of_number_safe)
  from a sendNftTransfer_head [of api ws pw mn r n f]
  show "take 5 (fst (sendNftTransfer api ws r n f pw)) =
       [ServiceTimeCheck, SecretRetrieval (publicKey ws), KeyDerivation,
        AccountStateFetch (rawAddress ws),
        SufficiencyCheck (max toNano_0_05 (toNano_0_05 - extra f) - extra f)
          (balance (fst (accountState api (rawAddress ws))))]
     \<and> sufficiencyTotals (fst (sendNftTransfer api ws r n f pw)) =
       [max toNano_0_05 (toNano_0_05 - extra f) - extra f]
     \<and> (snd (sendNftTransfer api ws r n f pw) = Inl InsufficientBalance) =
       (balance (fst (accountState api (rawAddress ws)))
          < max toNano_0_05 (toNano_0_05 - extra f) - extra f)"
    by (simp only: e)
qed

theorem sendNftTransfer_total_compared_witness:
  "serviceTime (sampleEnv 1000000000)
   \<and> secretStore (sampleEnv 1000000000) (publicKey sampleWallet) ''secret''
       = Some [''abandon'', ''ability'']
   \<and> \<bar>extra \<lparr>extra = - 2\<rparr>\<bar> < (2::int) ^ 53
   \<and> take 5 (fst (sendNftTransfer (sampleEnv 1000000000) sampleWallet sampleRecipient
        sampleNft \<lparr>extra = - 2\<rparr> ''secret'')) =
       [ServiceTimeCheck, SecretRetrieval ''pk'', KeyDerivation, AccountStateFetch ''0:aa'',
        SufficiencyCheck 50000004 1000000000]
   \<and> sufficiencyTotals (fst (sendNftTransfer (sampleEnv 1000000000) sampleWallet
        sampleRecipient sampleNft \<lparr>extra = - 2\<rparr> ''secret'')) = [50000004]
   \<and> map m_value (assembled (fst (sendNftTransfer (sampleEnv 1000000000) sampleWallet
        sampleRecipient sampleNft \<lparr>extra = - 2\<rparr> ''secret''))) = [50000002]
   \<and> snd (sendNftTransfer (sampleEnv 1000000000) sampleWallet sampleRecipient
        sampleNft \<lparr>extra = - 2\<rparr> ''secret'') = Inr ()
   \<and> snd (sendNftTransfer (sampleEnv 50000003) sampleWallet sampleRecipient
        sampleNft \<lparr>extra = - 2\<rparr> ''secret'') = Inl InsufficientBalance"
  using sendNftTransfer_total_compared [of "sampleEnv 1000000000" sampleWallet "''secret''"
      "[''abandon'', ''ability'']" "\<lparr>extra = - 2\<rparr>" sampleRecipient sampleNft]
    sendNftTransfer_total_compared [of "sampleEnv 50000003" sampleWallet "''secret''"
      "[''abandon'', ''ability'']" "\<lparr>extra = - 2\<rparr>" sampleRecipient sampleNft]
  by (simp add: sample_run_defs)

text \<open>
  At fee delta \<open>-2\<close> the total handed to the sufficiency check is 50000004, not the sum
  \<open>50000002 + (-2)\<close> of the final amount and the fee delta.
\<close>

theorem sendNftTransfer_total_not_sum:
  "sufficiencyTotals (fst (sendNftTransfer (sampleEnv 1000000000) sampleWallet
      sampleRecipient sampleNft \<lparr>extra = - 2\<rparr> ''secret'')) = [50000004]
   \<and> sufficiencyTotals (fst (sendNftTransfer (sampleEnv 1000000000) sampleWallet
        sampleRecipient sampleNft \<lparr>extra = - 2\<rparr> ''secret''))
      \<noteq> [max toNano_0_05 (toNano_0_05 - (- 2)) + (- 2)]"
  by (simp add: sample_run_defs)






text \<open>
  Claim C9. In \<^verbatim>\<open>sendNftTransfer\<close>, for every value of the remote-reported fee delta,
  the final transfer amount after the max-clamp against the 0.05 TON minimum is strictly
  positive, so the branch that throws on a final amount \<open>\<le> 0\<close> is unreachable: no run
  ends in InvalidAmount.
\<close>

theorem sendNftTransfer_amount_positive:
  "0 < max toNano_0_05 (toNano_0_05 - extra f)
   \<and> snd (sendNftTransfer api ws r n f pw) \<noteq> Inl InvalidAmount"
  using sendNftTransfer_not_InvalidAmount by (simp add: toNano_0_05_def)

theorem sendNftTransfer_amount_positive_witness:
  "0 < max toNano_0_05 (toNano_0_05 - extra \<lparr>extra = 60000000\<rparr>)
   \<and> max toNano_0_05 (toNano_0_05 - extra \<lparr>extra = 60000000\<rparr>) = 50000000
   \<and> snd (sendNftTransfer (sampleEnv 1000000000) sampleWallet sampleRecipient sampleNft
        \<lparr>extra = 60000000\<rparr> ''secret'') = Inr ()
   \<and> snd (sendNftTransfer (sampleEnv 1000000000) sampleWallet sampleRecipient sampleNft
        \<lparr>extra = 60000000\<rparr> ''secret'') \<noteq> Inl InvalidAmount"
  using sendNftTransfer_amount_positive [of "\<lparr>extra = 60000000\<rparr>"
      "sampleEnv 1000000000" sampleWallet sampleRecipient sampleNft "''secret''"]
  by (simp add: sample_run_defs)

subsection \<open>Preflight checks of the entry points\<close>

lemmas sample_entry_defs = sendNftRenew_def sendNftLink_def estimateNftTransfer_def
  estimateNftRenew_def estimateNftLink_def getKeyPairAndSeqno_def nftRenewBody_def
  nftLinkBody_def addressToDNSAddressFormat_def DNS_CATEGORY_WALLET_def
  initNftTransferAmount_def Buffer_alloc_def

text \<open>
  Claim C3. Every send entry point (\<^verbatim>\<open>sendNftTransfer\<close>, \<^verbatim>\<open>sendNftRenew\<close>,
  \<^verbatim>\<open>sendNftLink\<close>) runs the strict balance-sufficiency check before it submits to the
  broadcast endpoint: once the service-time check and the key retrieval have passed, the
  fifth step of the run is the sufficiency check of the computed total against the
  balance; when the total exceeds the balance the run ends there with
  InsufficientBalance, and otherwise the broadcast is its eighth and last step. For
  renew and link the first five steps are those of \<^verbatim>\<open>getKeyPairAndSeqno\<close>, whose failure
  the entry point hands on unchanged. The estimate entry points never run the
  sufficiency check: after the service-time check they run the weaker positive-balance
  check, which fails with EmptyBalance on a balance \<open>\<le> 0\<close> and lets every positive
  balance pass whatever the amount.
\<close>

theorem send_runs_strict_check:
  "(serviceTime api \<and> secretStore api (publicKey ws) pw = Some mn \<longrightarrow>
      take 5 (fst (sendNftTransfer api ws r n f pw)) =
        [ServiceTimeCheck, SecretRetrieval (publicKey ws), KeyDerivation,
         AccountStateFetch (rawAddress ws),
         SufficiencyCheck
           (max toNano_0_05 (toNano_0_05 - BigNumber_of_number (extra f))
              - BigNumber_of_number (extra f))
           (balance (fst (accountState api (rawAddress ws))))]
      \<and> (balance (fst (accountState api (rawAddress ws)))
            < max toNano_0_05 (toNano_0_05 - BigNumber_of_number (extra f))
                - BigNumber_of_number (extra f) \<longrightarrow>
          snd (sendNftTransfer api ws r n f pw) = Inl InsufficientBalance
          \<and> length (fst (sendNftTransfer api ws r n f pw)) = 5)
      \<and> (max toNano_0_05 (toNano_0_05 - BigNumber_of_number (extra f))
            - BigNumber_of_number (extra f)
              \<le> balance (fst (accountState api (rawAddress ws)))
          \<and> max toNano_0_05 (toNano_0_05 - BigNumber_of_number (extra f)) < 10 ^ 21
          \<and> parseAddress api (toAccountRaw r) \<noteq> None
          \<and> parseAddress api (rawAddress ws) \<noteq> None
          \<and> 0 \<le> dateNow api \<and> dateNow api < 2 ^ 64 \<longrightarrow>
          map isBroadcast (fst (sendNftTransfer api ws r n f pw)) =
            [False, False, False, False, False, False, False, True]))
   \<and> precededBy isSufficiencyCheck isBroadcast (fst (sendNftTransfer api ws r n f pw))
   \<and> (serviceTime api
        \<and> secretStore api (publicKey (walletState ro)) (password ro) = Some mn \<longrightarrow>
      take 5 (fst (sendNftRenew api ro)) =
        [ServiceTimeCheck, SecretRetrieval (publicKey (walletState ro)), KeyDerivation,
         AccountStateFetch (rawAddress (walletState ro)),
         SufficiencyCheck (amount ro + extra (fee ro))
           (balance (fst (accountState api (rawAddress (walletState ro)))))]
      \<and> (balance (fst (accountState api (rawAddress (walletState ro))))
            < amount ro + extra (fee ro) \<longrightarrow>
          snd (sendNftRenew api ro) = Inl InsufficientBalance
          \<and> length (fst (sendNftRenew api ro)) = 5)
      \<and> (amount ro + extra (fee ro)
            \<le> balance (fst (accountState api (rawAddress (walletState ro)))) \<longrightarrow>
          map isBroadcast (fst (sendNftRenew api ro)) =
            [False, False, False, False, False, False, False, True]))
   \<and> precededBy isSufficiencyCheck isBroadcast (fst (sendNftRenew api ro))
   \<and> (snd (getKeyPairAndSeqno api ro) = Inl err \<longrightarrow>
        sendNftRenew api ro = (fst (getKeyPairAndSeqno api ro), Inl err))
   \<and> (serviceTime api
        \<and> secretStore api (publicKey (walletState lo)) (password lo) = Some mn \<longrightarrow>
      take 5 (fst (sendNftLink api lo)) =
        [ServiceTimeCheck, SecretRetrieval (publicKey (walletState lo)), KeyDerivation,
         AccountStateFetch (rawAddress (walletState lo)),
         SufficiencyCheck (amount lo + extra (fee lo))
           (balance (fst (accountState api (rawAddress (walletState lo)))))]
      \<and> (balance (fst (accountState api (rawAddress (walletState lo))))
            < amount lo + extra (fee lo) \<longrightarrow>
          snd (sendNftLink api lo) = Inl InsufficientBalance
          \<and> length (fst (sendNftLink api lo)) = 5)
      \<and> (amount lo + extra (fee lo)
            \<le> balance (fst (accountState api (rawAddress (walletState lo))))
          \<and> (sl_linkToAddress lo = [] \<or> parseAddress api (sl_linkToAddress lo) \<noteq> None) \<longrightarrow>
          map isBroadcast (fst (sendNftLink api lo)) =
            [False, False, False, False, False, False, False, True]))
   \<and> precededBy isSufficiencyCheck isBroadcast (fst (sendNftLink api lo))
   \<and> (snd (getKeyPairAndSeqno api lo) = Inl err \<longrightarrow>
        sendNftLink api lo = (fst (getKeyPairAndSeqno api lo), Inl err))
   \<and> (serviceTime api \<longrightarrow>
      take 3 (fst (estimateNftTransfer api ws r n)) =
        [ServiceTimeCheck, AccountStateFetch (rawAddress ws),
         PositiveBalanceCheck (balance (fst (accountState api (rawAddress ws))))]
      \<and> (balance (fst (accountState api (rawAddress ws))) \<le> 0 \<longrightarrow>
          snd (estimateNftTransfer api ws r n) = Inl EmptyBalance
          \<and> length (fst (estimateNftTransfer api ws r n)) = 3))
   \<and> (\<not> list_ex isSufficiencyCheck (fst (estimateNftTransfer api ws r n))
      \<and> (0 < balance (fst (accountState api (rawAddress ws))) \<longrightarrow>
           snd (estimateNftTransfer api ws r n) \<noteq> Inl EmptyBalance
           \<and> snd (estimateNftTransfer api ws r n) \<noteq> Inl InsufficientBalance))
   \<and> (serviceTime api \<longrightarrow>
      take 3 (fst (estimateNftRenew api ero)) =
        [ServiceTimeCheck, AccountStateFetch (rawAddress (walletState ero)),
         PositiveBalanceCheck (balance (fst (accountState api (rawAddress (walletState ero)))))]
      \<and> (balance (fst (accountState api (rawAddress (walletState ero)))) \<le> 0 \<longrightarrow>
          snd (estimateNftRenew api ero) = Inl EmptyBalance
          \<and> length (fst (estimateNftRenew api ero)) = 3))
   \<and> (\<not> list_ex isSufficiencyCheck (fst (estimateNftRenew api ero))
      \<and> (0 < balance (fst (accountState api (rawAddress (walletState ero)))) \<longrightarrow>
           snd (estimateNftRenew api ero) \<noteq> Inl EmptyBalance
           \<and> snd (estimateNftRenew api ero) \<noteq> Inl InsufficientBalance))
   \<and> (serviceTime api \<longrightarrow>
      take 3 (fst (estimateNftLink api elo)) =
        [ServiceTimeCheck, AccountStateFetch (rawAddress (walletState elo)),
         PositiveBalanceCheck (balance (fst (accountState api (rawAddress (walletState elo)))))]
      \<and> (balance (fst (accountState api (rawAddress (walletState elo)))) \<le> 0 \<longrightarrow>
          snd (estimateNftLink api elo) = Inl EmptyBalance
          \<and> length (fst (estimateNftLink api elo)) = 3))
   \<and> (\<not> list_ex isSufficiencyCheck (fst (estimateNftLink api elo))
      \<and> (0 < balance (fst (accountState api (rawAddress (walletState elo)))) \<longrightarrow>
           snd (estimateNftLink api elo) \<noteq> Inl EmptyBalance
           \<and> snd (estimateNftLink api elo) \<noteq> Inl InsufficientBalance))"
proof -
  have t: "serviceTime api \<and> secretStore api (publicKey ws) pw = Some mn \<longrightarrow>
      take 5 (fst (sendNftTransfer api ws r n f pw)) =
        [ServiceTimeCheck, SecretRetrieval (publicKey ws), KeyDerivation,
         AccountStateFetch (rawAddress ws),
         SufficiencyCheck
           (max toNano_0_05 (toNano_0_05 - BigNumber_of_number (extra f))
              - BigNumber_of_number (extra f))
           (balance (fst (accountState api (rawAddress ws))))]
      \<and> (balance (fst (accountState api (rawAddress ws)))
            < max toNano_0_05 (toNano_0_05 - BigNumber_of_number (extra f))
                - BigNumber_of_number (extra f) \<longrightarrow>
          snd (sendNftTransfer api ws r n f pw) = Inl InsufficientBalance
          \<and> length (fst (sendNftTransfer api ws r n f pw)) = 5)
      \<and> (max toNano_0_05 (toNano_0_05 - BigNumber_of_number (extra f))
            - BigNumber_of_number (extra f)
              \<le> balance (fst (accountState api (rawAddress ws)))
          \<and> max toNano_0_05 (toNano_0_05 - BigNumber_of_number (extra f)) < 10 ^ 21
          \<and> parseAddress api (toAccountRaw r) \<noteq> None
          \<and> parseAddress api (rawAddress ws) \<noteq> None
          \<and> 0 \<le> dateNow api \<and> dateNow api < 2 ^ 64 \<longrightarrow>
          map isBroadcast (fst (sendNftTransfer api ws r n f pw)) =
            [False, False, False, False, False, False, False, True])"
    using sendNftTransfer_head [of api ws pw mn r n f]
      sendNftTransfer_insufficient [of api ws pw mn f r n]
      sendNftTransfer_success [of api ws pw mn f r n]
    by (intro impI conjI) (simp_all del: max_less_iff_conj)
  have rn: "serviceTime api
        \<and> secretStore api (publicKey (walletState ro)) (password ro) = Some mn \<longrightarrow>
      take 5 (fst (sendNftRenew api ro)) =
        [ServiceTimeCheck, SecretRetrieval (publicKey (walletState ro)), KeyDerivation,
         AccountStateFetch (rawAddress (walletState ro)),
         SufficiencyCheck (amount ro + extra (fee ro))
           (balance (fst (accountState api (rawAddress (walletState ro)))))]
      \<and> (balance (fst (accountState api (rawAddress (walletState ro))))
            < amount ro + extra (fee ro) \<longrightarrow>
          snd (sendNftRenew api ro) = Inl InsufficientBalance
          \<and> length (fst (sendNftRenew api ro)) = 5)
      \<and> (amount ro + extra (fee ro)
            \<le> balance (fst (accountState api (rawAddress (walletState ro)))) \<longrightarrow>
          map isBroadcast (fst (sendNftRenew api ro)) =
            [False, False, False, False, False, False, False, True])"
    using sendNftRenew_head [of api ro mn] sendNftRenew_insufficient [of api ro mn]
      sendNftRenew_success [of api ro mn]
    by (intro impI conjI) simp_all
  have ln: "serviceTime api
        \<and> secretStore api (publicKey (walletState lo)) (password lo) = Some mn \<longrightarrow>
      take 5 (fst (sendNftLink api lo)) =
        [ServiceTimeCheck, SecretRetrieval (publicKey (walletState lo)), KeyDerivation,
         AccountStateFetch (rawAddress (walletState lo)),
         SufficiencyCheck (amount lo + extra (fee lo))
           (balance (fst (accountState api (rawAddress (walletState lo)))))]
      \<and> (balance (fst (accountState api (rawAddress (walletState lo))))
            < amount lo + extra (fee lo) \<longrightarrow>
          snd (sendNftLink api lo) = Inl InsufficientBalance
          \<and> length (fst (sendNftLink api lo)) = 5)
      \<and> (amount lo + extra (fee lo)
            \<le> balance (fst (accountState api (rawAddress (walletState lo))))
          \<and> (sl_linkToAddress lo = [] \<or> parseAddress api (sl_linkToAddress lo) \<noteq> None) \<longrightarrow>
          map isBroadcast (fst (sendNftLink api lo)) =
            [False, False, False, False, False, False, False, True])"
    using sendNftLink_head [of api lo mn] sendNftLink_insufficient [of api lo mn]
      sendNftLink_success [of api lo mn]
    by (intro impI conjI) auto
  have et: "serviceTime api \<longrightarrow>
      take 3 (fst (estimateNftTransfer api ws r n)) =
        [ServiceTimeCheck, AccountStateFetch (rawAddress ws),
         PositiveBalanceCheck (balance (fst (accountState api (rawAddress ws))))]
      \<and> (balance (fst (accountState api (rawAddress ws))) \<le> 0 \<longrightarrow>
          snd (estimateNftTransfer api ws r n) = Inl EmptyBalance
          \<and> length (fst (estimateNftTransfer api ws r n)) = 3)"
    using estimateNftTransfer_head [of api ws r n] estimateNftTransfer_empty [of api ws r n]
    by (intro impI conjI) simp_all
  have er: "serviceTime api \<longrightarrow>
      take 3 (fst (estimateNftRenew api ero)) =
        [ServiceTimeCheck, AccountStateFetch (rawAddress (walletState ero)),
         PositiveBalanceCheck (balance (fst (accountState api (rawAddress (walletState ero)))))]
      \<and> (balance (fst (accountState api (rawAddress (walletState ero)))) \<le> 0 \<longrightarrow>
          snd (estimateNftRenew api ero) = Inl EmptyBalance
          \<and> length (fst (estimateNftRenew api ero)) = 3)"
    using estimateNftRenew_head [of api ero] estimateNftRenew_empty [of api ero]
    by (intro impI conjI) simp_all
  have el: "serviceTime api \<longrightarrow>
      take 3 (fst (estimateNftLink api elo)) =
        [ServiceTimeCheck, AccountStateFetch (rawAddress (walletState elo)),
         PositiveBalanceCheck (balance (fst (accountState api (rawAddress (walletState elo)))))]
      \<and> (balance (fst (accountState api (rawAddress (walletState elo)))) \<le> 0 \<longrightarrow>
          snd (estimateNftLink api elo) = Inl EmptyBalance
          \<and> length (fst (estimateNftLink api elo)) = 3)"
    using estimateNftLink_head [of api elo] estimateNftLink_empty [of api elo]
    by (intro impI conjI) simp_all
  have dr: "snd (getKeyPairAndSeqno api ro) = Inl err \<longrightarrow>
        sendNftRenew api ro = (fst (getKeyPairAndSeqno api ro), Inl err)"
    using sendNftRenew_delegates [of api ro err] by blast
  have dl: "snd (getKeyPairAndSeqno api lo) = Inl err \<longrightarrow>
        sendNftLink api lo = (fst (getKeyPairAndSeqno api lo), Inl err)"
    using sendNftLink_delegates [of api lo err] by blast
  show ?thesis
    by (intro conjI t rn ln et er el dr dl sendNftTransfer_preceded sendNftRenew_preceded
        sendNftLink_preceded estimateNftTransfer_weak estimateNftRenew_weak
        estimateNftLink_weak)
qed

theorem send_runs_strict_check_witness:
  "sendNftRenew (sampleEnv 100) (sampleSendRenew 200) =
     ([ServiceTimeCheck, SecretRetrieval ''pk'', KeyDerivation, AccountStateFetch ''0:aa'',
       SufficiencyCheck 198 100], Inl InsufficientBalance)
   \<and> map isBroadcast (fst (sendNftRenew (sampleEnv 100) (sampleSendRenew 20))) =
       [False, False, False, False, False, False, False, True]
   \<and> take 5 (fst (sendNftRenew (sampleEnv 100) (sampleSendRenew 20))) =
       [ServiceTimeCheck, SecretRetrieval ''pk'', KeyDerivation, AccountStateFetch ''0:aa'',
        SufficiencyCheck 18 100]
   \<and> sendNftLink (sampleEnv 100) (sampleSendLink 200) =
     ([ServiceTimeCheck, SecretRetrieval ''pk'', KeyDerivation, AccountStateFetch ''0:aa'',
       SufficiencyCheck 198 100], Inl InsufficientBalance)
   \<and> map isBroadcast (fst (sendNftLink (sampleEnv 100) (sampleSendLink 20))) =
       [False, False, False, False, False, False, False, True]
   \<and> sendNftTransfer (sampleEnv 100) sampleWallet sampleRecipient sampleNft
        \<lparr>extra = - 2\<rparr> ''secret'' =
     ([ServiceTimeCheck, SecretRetrieval ''pk'', KeyDerivation, AccountStateFetch ''0:aa'',
       SufficiencyCheck 50000004 100], Inl InsufficientBalance)
   \<and> map isBroadcast (fst (sendNftTransfer (sampleEnv 1000000000) sampleWallet
        sampleRecipient sampleNft \<lparr>extra = - 2\<rparr> ''secret'')) =
       [False, False, False, False, False, False, False, True]
   \<and> estimateNftTransfer (sampleEnv 0) sampleWallet sampleRecipient sampleNft =
     ([ServiceTimeCheck, AccountStateFetch ''0:aa'', PositiveBalanceCheck 0], Inl EmptyBalance)
   \<and> snd (estimateNftTransfer (sampleEnv 1) sampleWallet sampleRecipient sampleNft) =
       Inr \<lparr>extra = - 2\<rparr>
   \<and> estimateNftRenew (sampleEnv 0) sampleEstimateRenew =
     ([ServiceTimeCheck, AccountStateFetch ''0:aa'', PositiveBalanceCheck 0], Inl EmptyBalance)
   \<and> map isPositiveBalanceCheck (fst (estimateNftRenew (sampleEnv 1) sampleEstimateRenew))
      = [False, False, True, False, False]
   \<and> estimateNftLink (sampleEnv 0) sampleEstimateLink =
     ([ServiceTimeCheck, AccountStateFetch ''0:aa'', PositiveBalanceCheck 0], Inl EmptyBalance)
   \<and> map isPositiveBalanceCheck (fst (estimateNftLink (sampleEnv 1) sampleEstimateLink))
      = [False, False, True, False, False]"
  using send_runs_strict_check [of "sampleEnv 100" sampleWallet "''secret''"
      "[''abandon'', ''ability'']" sampleRecipient sampleNft "\<lparr>extra = - 2\<rparr>"
      "sampleSendRenew 200" InsufficientBalance "sampleSendLink 200"
      sampleEstimateRenew sampleEstimateLink]
    send_runs_strict_check [of "sampleEnv 1000000000" sampleWallet "''secret''"
      "[''abandon'', ''ability'']" sampleRecipient sampleNft "\<lparr>extra = - 2\<rparr>"
      "sampleSendRenew 20" InsufficientBalance "sampleSendLink 20"
      sampleEstimateRenew sampleEstimateLink]
    send_runs_strict_check [of "sampleEnv 0" sampleWallet "''secret''"
      "[''abandon'', ''ability'']" sampleRecipient sampleNft "\<lparr>extra = - 2\<rparr>"
      "sampleSendRenew 20" InsufficientBalance "sampleSendLink 20"
      sampleEstimateRenew sampleEstimateLink]
  by (simp add: sample_run_defs sample_entry_defs)

text \<open>
  Claim C6. Every estimate entry point (\<^verbatim>\<open>estimateNftTransfer\<close>, \<^verbatim>\<open>estimateNftRenew\<close>,
  \<^verbatim>\<open>estimateNftLink\<close>) runs the service-time check and the positive-balance check before
  it encodes or assembles anything: a failed service-time check ends the run after one
  step, a balance \<open>\<le> 0\<close> ends it after the third, and when both pass and the body encodes
  the body is encoded and the message assembled as the fourth and fifth steps. The
  message is assembled with the zero-filled placeholder secret key of 64 bytes, and no
  run retrieves secret key material from the secret store.
\<close>

theorem estimate_checks_and_placeholder_key:
  "(\<not> serviceTime api \<longrightarrow>
      estimateNftTransfer api ws r n = ([ServiceTimeCheck], Inl ServiceUnavailable)
      \<and> estimateNftRenew api ero = ([ServiceTimeCheck], Inl ServiceUnavailable)
      \<and> estimateNftLink api elo = ([ServiceTimeCheck], Inl ServiceUnavailable))
   \<and> (serviceTime api \<and> balance (fst (accountState api (rawAddress ws))) \<le> 0 \<longrightarrow>
      estimateNftTransfer api ws r n =
        ([ServiceTimeCheck, AccountStateFetch (rawAddress ws),
          PositiveBalanceCheck (balance (fst (accountState api (rawAddress ws))))],
         Inl EmptyBalance))
   \<and> (serviceTime api
        \<and> balance (fst (accountState api (rawAddress (walletState ero)))) \<le> 0 \<longrightarrow>
      estimateNftRenew api ero =
        ([ServiceTimeCheck, AccountStateFetch (rawAddress (walletState ero)),
          PositiveBalanceCheck
            (balance (fst (accountState api (rawAddress (walletState ero)))))],
         Inl EmptyBalance))
   \<and> (serviceTime api
        \<and> balance (fst (accountState api (rawAddress (walletState elo)))) \<le> 0 \<longrightarrow>
      estimateNftLink api elo =
        ([ServiceTimeCheck, AccountStateFetch (rawAddress (walletState elo)),
          PositiveBalanceCheck
            (balance (fst (accountState api (rawAddress (walletState elo)))))],
         Inl EmptyBalance))
   \<and> (serviceTime api \<and> 0 < balance (fst (accountState api (rawAddress ws)))
        \<and> parseAddress api (toAccountRaw r) \<noteq> None
        \<and> parseAddress api (rawAddress ws) \<noteq> None
        \<and> 0 \<le> dateNow api \<and> dateNow api < 2 ^ 64 \<longrightarrow>
      take 3 (fst (estimateNftTransfer api ws r n)) =
        [ServiceTimeCheck, AccountStateFetch (rawAddress ws),
         PositiveBalanceCheck (balance (fst (accountState api (rawAddress ws))))]
      \<and> map isBuilding (fst (estimateNftTransfer api ws r n)) =
        [False, False, False, True, True, False]
      \<and> map m_secretKey (assembled (fst (estimateNftTransfer api ws r n))) =
        [replicate 64 0])
   \<and> (serviceTime api
        \<and> 0 < balance (fst (accountState api (rawAddress (walletState ero)))) \<longrightarrow>
      take 3 (fst (estimateNftRenew api ero)) =
        [ServiceTimeCheck, AccountStateFetch (rawAddress (walletState ero)),
         PositiveBalanceCheck (balance (fst (accountState api (rawAddress (walletState ero)))))]
      \<and> map isBuilding (fst (estimateNftRenew api ero)) = [False, False, False, True, True]
      \<and> map m_secretKey (assembled (fst (estimateNftRenew api ero))) = [replicate 64 0]
      \<and> map_sum id m_secretKey (snd (estimateNftRenew api ero)) = Inr (replicate 64 0))
   \<and> (serviceTime api
        \<and> 0 < balance (fst (accountState api (rawAddress (walletState elo))))
        \<and> (el_linkToAddress elo = [] \<or> parseAddress api (el_linkToAddress elo) \<noteq> None) \<longrightarrow>
      take 3 (fst (estimateNftLink api elo)) =
        [ServiceTimeCheck, AccountStateFetch (rawAddress (walletState elo)),
         PositiveBalanceCheck (balance (fst (accountState api (rawAddress (walletState elo)))))]
      \<and> map isBuilding (fst (estimateNftLink api elo)) = [False, False, False, True, True]
      \<and> map m_secretKey (assembled (fst (estimateNftLink api elo))) = [replicate 64 0]
      \<and> map_sum id m_secretKey (snd (estimateNftLink api elo)) = Inr (replicate 64 0))
   \<and> (precededBy isServiceTimeCheck isBuilding (fst (estimateNftTransfer api ws r n))
      \<and> precededBy isPositiveBalanceCheck isBuilding (fst (estimateNftTransfer api ws r n))
      \<and> (\<forall>m \<in> set (assembled (fst (estimateNftTransfer api ws r n))).
           m_secretKey m = replicate 64 0)
      \<and> \<not> list_ex isSecretRetrieval (fst (estimateNftTransfer api ws r n)))
   \<and> (precededBy isServiceTimeCheck isBuilding (fst (estimateNftRenew api ero))
      \<and> precededBy isPositiveBalanceCheck isBuilding (fst (estimateNftRenew api ero))
      \<and> (\<forall>m \<in> set (assembled (fst (estimateNftRenew api ero))).
           m_secretKey m = replicate 64 0)
      \<and> \<not> list_ex isSecretRetrieval (fst (estimateNftRenew api ero)))
   \<and> (precededBy isServiceTimeCheck isBuilding (fst (estimateNftLink api elo))
      \<and> precededBy isPositiveBalanceCheck isBuilding (fst (estimateNftLink api elo))
      \<and> (\<forall>m \<in> set (assembled (fst (estimateNftLink api elo))).
           m_secretKey m = replicate 64 0)
      \<and> \<not> list_ex isSecretRetrieval (fst (estimateNftLink api elo)))"
proof -
  have u: "\<not> serviceTime api \<longrightarrow>
      estimateNftTransfer api ws r n = ([ServiceTimeCheck], Inl ServiceUnavailable)
      \<and> estimateNftRenew api ero = ([ServiceTimeCheck], Inl ServiceUnavailable)
      \<and> estimateNftLink api elo = ([ServiceTimeCheck], Inl ServiceUnavailable)"
    by (simp add: estimateNftTransfer_unavailable estimateNftRenew_unavailable
        estimateNftLink_unavailable)
  have e1: "serviceTime api \<and> balance (fst (accountState api (rawAddress ws))) \<le> 0 \<longrightarrow>
      estimateNftTransfer api ws r n =
        ([ServiceTimeCheck, AccountStateFetch (rawAddress ws),
          PositiveBalanceCheck (balance (fst (accountState api (rawAddress ws))))],
         Inl EmptyBalance)"
    using estimateNftTransfer_empty [of api ws r n] by blast
  have e2: "serviceTime api
        \<and> balance (fst (accountState api (rawAddress (walletState ero)))) \<le> 0 \<longrightarrow>
      estimateNftRenew api ero =
        ([ServiceTimeCheck, AccountStateFetch (rawAddress (walletState ero)),
          PositiveBalanceCheck
            (balance (fst (accountState api (rawAddress (walletState ero)))))],
         Inl EmptyBalance)"
    using estimateNftRenew_empty [of api ero] by blast
  have e3: "serviceTime api
        \<and> balance (fst (accountState api (rawAddress (walletState elo)))) \<le> 0 \<longrightarrow>
      estimateNftLink api elo =
        ([ServiceTimeCheck, AccountStateFetch (rawAddress (walletState elo)),
          PositiveBalanceCheck
            (balance (fst (accountState api (rawAddress (walletState elo)))))],
         Inl EmptyBalance)"
    using estimateNftLink_empty [of api elo] by blast
  have s1: "serviceTime api \<and> 0 < balance (fst (accountState api (rawAddress ws)))
        \<and> parseAddress api (toAccountRaw r) \<noteq> None
        \<and> parseAddress api (rawAddress ws) \<noteq> None
        \<and> 0 \<le> dateNow api \<and> dateNow api < 2 ^ 64 \<longrightarrow>
      take 3 (fst (estimateNftTransfer api ws r n)) =
        [ServiceTimeCheck, AccountStateFetch (rawAddress ws),
         PositiveBalanceCheck (balance (fst (accountState api (rawAddress ws))))]
      \<and> map isBuilding (fst (estimateNftTransfer api ws r n)) =
        [False, False, False, True, True, False]
      \<and> map m_secretKey (assembled (fst (estimateNftTransfer api ws r n))) =
        [replicate 64 0]"
    using estimateNftTransfer_head [of api ws r n] estimateNftTransfer_success [of api ws r n]
    by (intro impI conjI) simp_all
  have s2: "serviceTime api
        \<and> 0 < balance (fst (accountState api (rawAddress (walletState ero)))) \<longrightarrow>
      take 3 (fst (estimateNftRenew api ero)) =
        [ServiceTimeCheck, AccountStateFetch (rawAddress (walletState ero)),
         PositiveBalanceCheck (balance (fst (accountState api (rawAddress (walletState ero)))))]
      \<and> map isBuilding (fst (estimateNftRenew api ero)) = [False, False, False, True, True]
      \<and> map m_secretKey (assembled (fst (estimateNftRenew api ero))) = [replicate 64 0]
      \<and> map_sum id m_secretKey (snd (estimateNftRenew api ero)) = Inr (replicate 64 0)"
    using estimateNftRenew_head [of api ero] estimateNftRenew_success [of api ero]
    by (intro impI conjI) simp_all
  have s3: "serviceTime api
        \<and> 0 < balance (fst (accountState api (rawAddress (walletState elo))))
        \<and> (el_linkToAddress elo = [] \<or> parseAddress api (el_linkToAddress elo) \<noteq> None) \<longrightarrow>
      take 3 (fst (estimateNftLink api elo)) =
        [ServiceTimeCheck, AccountStateFetch (rawAddress (walletState elo)),
         PositiveBalanceCheck (balance (fst (accountState api (rawAddress (walletState elo)))))]
      \<and> map isBuilding (fst (estimateNftLink api elo)) = [False, False, False, True, True]
      \<and> map m_secretKey (assembled (fst (estimateNftLink api elo))) = [replicate 64 0]
      \<and> map_sum id m_secretKey (snd (estimateNftLink api elo)) = Inr (replicate 64 0)"
    using estimateNftLink_head [of api elo] estimateNftLink_success [of api elo]
    by (intro impI conjI) auto
  show ?thesis
    by (intro conjI u e1 e2 e3 s1 s2 s3 estimateNftTransfer_always estimateNftRenew_always
        estimateNftLink_always)
qed

theorem estimate_checks_and_placeholder_key_witness:
  "map m_secretKey (assembled (fst (estimateNftTransfer (sampleEnv 100) sampleWallet
      sampleRecipient sampleNft))) = [replicate 64 0]
   \<and> map isBuilding (fst (estimateNftTransfer (sampleEnv 100) sampleWallet
      sampleRecipient sampleNft)) = [False, False, False, True, True, False]
   \<and> map isBuilding (fst (estimateNftTransfer (sampleEnv 100) sampleWallet
      (sampleRecipient\<lparr>comment := []\<rparr>) sampleNft)) = [False, False, False, True, True, False]
   \<and> map_sum id m_secretKey (snd (estimateNftRenew (sampleEnv 100) sampleEstimateRenew))
      = Inr (replicate 64 0)
   \<and> map isBuilding (fst (estimateNftRenew (sampleEnv 100) sampleEstimateRenew))
      = [False, False, False, True, True]
   \<and> map_sum id m_secretKey (snd (estimateNftLink (sampleEnv 100) sampleEstimateLink))
      = Inr (replicate 64 0)
   \<and> map isBuilding (fst (estimateNftLink (sampleEnv 100) sampleEstimateLink))
      = [False, False, False, True, True]
   \<and> estimateNftRenew (sampleEnv 0) sampleEstimateRenew
      = ([ServiceTimeCheck, AccountStateFetch ''0:aa'', PositiveBalanceCheck 0],
         Inl EmptyBalance)
   \<and> estimateNftLink ((sampleEnv 100)\<lparr>serviceTime := False\<rparr>) sampleEstimateLink
      = ([ServiceTimeCheck], Inl ServiceUnavailable)"
  using estimate_checks_and_placeholder_key [of "sampleEnv 100" sampleWallet sampleRecipient
      sampleNft sampleEstimateRenew sampleEstimateLink]
    estimate_checks_and_placeholder_key [of "sampleEnv 100" sampleWallet
      "sampleRecipient\<lparr>comment := []\<rparr>" sampleNft sampleEstimateRenew sampleEstimateLink]
    estimate_checks_and_placeholder_key [of "sampleEnv 0" sampleWallet sampleRecipient
      sampleNft sampleEstimateRenew sampleEstimateLink]
    estimate_checks_and_placeholder_key [of "(sampleEnv 100)\<lparr>serviceTime := False\<rparr>"
      sampleWallet sampleRecipient sampleNft sampleEstimateRenew sampleEstimateLink]
  by (simp add: sample_run_defs sample_entry_defs)

end
